theory Spec2Isabelle
  imports Complex_Main
begin

section \<open>StakeFlow: the wager challenge engine\<close>

text \<open>
  The repository holds two versions of the challenge server. The wallet server
  (\<^verbatim>\<open>src/unnamed/part_001\<close>, first document) keeps a balance per user and a
  transaction log; the statistics-only server (\<^verbatim>\<open>src/server/index.js\<close>) has neither.
  Both talk to an SQL database through \<^verbatim>\<open>better-sqlite3\<close>; the tables are modelled
  as maps (primary key \<open>id\<close>) and lists (rows in insertion order), and every
  \<^verbatim>\<open>UPDATE ... WHERE\<close> as an update of the rows the condition selects. One row type
  serves both servers: the statistics-only server never reads or writes the columns it
  lacks.

  Amounts are integers of cents. JavaScript numbers are read as exact rationals. The
  code rounds an integer divided by 100, or an integer times \<open>1 + 0.05\<close>, \<open>1 + 0.07\<close>
  or \<open>1 + 0.10\<close>; these doubles lie just above 1.05, 1.07 and 1.10, so that on an
  amount that is not negative (and far below \<open>2\<^sup>5\<^sup>3\<close>) \<^verbatim>\<open>Math.round\<close> of the double
  product is the rounding of the exact product, a half going up. A negative stake is
  outside this reading. The \<^verbatim>\<open>type\<close> of a challenge is one of the four strings the
  client sends. Time stamps (\<^verbatim>\<open>started_at\<close>, \<^verbatim>\<open>ended_at\<close>, \<^verbatim>\<open>failed_at\<close>,
  \<^verbatim>\<open>last_session_date\<close>), names, e-mail addresses, selfies and the socket broadcasts
  are left out: no handler reads them back. Requests are handled one at a time.
\<close>

subsection \<open>Fees, bonuses and rounding\<close>

text \<open>\<^verbatim>\<open>Math.round\<close>: the nearest integer, a tie going up.\<close>

definition js_round :: "rat \<Rightarrow> int" where
  "js_round x = \<lfloor>x + 1 / 2\<rfloor>"

text \<open>
  \<^verbatim>\<open>
  function getPlatformFee(stakeAmountCents) {
      const dollars = stakeAmountCents / 100;
      if (dollars >= 100) return 15;
      return 10;
  }
  function getStreakBonus(streak) {
      if (streak >= 7) return 0.10;
      if (streak >= 5) return 0.07;
      if (streak >= 3) return 0.05;
      return 0;
  }
  \<close>
\<close>

definition getPlatformFee :: "int \<Rightarrow> int" where
  "getPlatformFee stakeAmountCents =
     (let dollars = (of_int stakeAmountCents :: rat) / 100
      in if dollars \<ge> 100 then 15 else 10)"

definition getStreakBonus :: "int \<Rightarrow> rat" where
  "getStreakBonus streak =
     (if streak \<ge> 7 then 10 / 100
      else if streak \<ge> 5 then 7 / 100
      else if streak \<ge> 3 then 5 / 100
      else 0)"


subsection \<open>The tables\<close>

datatype challenge_type = Solo | Friend | Royale | Group

datatype challenge_status = Pending | Active | Completed

datatype transaction_type = Stake | Win | Loss | Deposit | Withdrawal

text \<open>A row of \<^verbatim>\<open>users\<close>; a new row has every number at its column default 0.\<close>

record user =
  balance :: int
  stripe_customer_id :: "string option"
  stripe_connect_id :: "string option"
  stripe_connect_verified :: bool
  total_sessions :: int
  total_wins :: int
  total_focus_minutes :: int
  money_won :: int
  money_lost :: int
  current_streak :: int
  best_streak :: int

definition new_user :: user where
  "new_user =
     \<lparr>balance = 0, stripe_customer_id = None, stripe_connect_id = None,
      stripe_connect_verified = False, total_sessions = 0, total_wins = 0,
      total_focus_minutes = 0, money_won = 0, money_lost = 0, current_streak = 0,
      best_streak = 0\<rparr>"

text \<open>A row of \<^verbatim>\<open>transactions\<close>: \<open>amount\<close> is signed.\<close>

record transaction =
  tx_user_id :: string
  tx_type :: transaction_type
  amount :: int
  description :: string
  tx_challenge_id :: "string option"
  stripe_payment_id :: "string option"

record challenge =
  ctype :: challenge_type
  creator_id :: string
  stake_amount :: int
  duration_minutes :: "int option"
  max_players :: int
  status :: challenge_status
  winner_id :: "string option"

record player =
  challenge_id :: string
  user_id :: string
  paid :: bool
  ready :: bool
  failed :: bool
  completed :: bool

record state =
  users :: "string \<rightharpoonup> user"
  transactions :: "transaction list"
  challenges :: "string \<rightharpoonup> challenge"
  challenge_players :: "player list"

definition empty_db :: state where
  "empty_db = \<lparr>users = Map.empty, transactions = [], challenges = Map.empty,
     challenge_players = []\<rparr>"

text \<open>An HTTP error answer: the status code and the \<^verbatim>\<open>error\<close> text.\<close>

datatype http_error = HttpError nat string

subsection \<open>SQL statements\<close>

text \<open>\<^verbatim>\<open>UPDATE users SET ... WHERE id = ?\<close>: no row, no change.\<close>

definition update_user :: "state \<Rightarrow> string \<Rightarrow> (user \<Rightarrow> user) \<Rightarrow> state" where
  "update_user s uid f =
     (case users s uid of
        None \<Rightarrow> s
      | Some u \<Rightarrow> s\<lparr>users := (users s)(uid \<mapsto> f u)\<rparr>)"

text \<open>\<^verbatim>\<open>UPDATE challenges SET ... WHERE id = ?\<close>\<close>

definition update_challenge :: "state \<Rightarrow> string \<Rightarrow> (challenge \<Rightarrow> challenge) \<Rightarrow> state" where
  "update_challenge s cid f =
     (case challenges s cid of
        None \<Rightarrow> s
      | Some c \<Rightarrow> s\<lparr>challenges := (challenges s)(cid \<mapsto> f c)\<rparr>)"

text \<open>\<^verbatim>\<open>UPDATE challenge_players SET ... WHERE challenge_id = ? AND user_id = ?\<close>\<close>

definition update_players :: "state \<Rightarrow> string \<Rightarrow> string \<Rightarrow> (player \<Rightarrow> player) \<Rightarrow> state" where
  "update_players s cid uid f =
     s\<lparr>challenge_players :=
         map (\<lambda>p. if challenge_id p = cid \<and> user_id p = uid then f p else p)
           (challenge_players s)\<rparr>"

definition insert_transaction :: "state \<Rightarrow> transaction \<Rightarrow> state" where
  "insert_transaction s t = s\<lparr>transactions := transactions s @ [t]\<rparr>"

text \<open>\<^verbatim>\<open>INSERT INTO challenge_players (challenge_id, user_id, user_name, paid) VALUES (?, ?, ?, 1)\<close>\<close>

definition insert_player :: "state \<Rightarrow> string \<Rightarrow> string \<Rightarrow> state" where
  "insert_player s cid uid =
     s\<lparr>challenge_players := challenge_players s @
         [\<lparr>challenge_id = cid, user_id = uid, paid = True, ready = False, failed = False,
           completed = False\<rparr>]\<rparr>"

text \<open>\<^verbatim>\<open>SELECT * FROM challenge_players WHERE challenge_id = ?\<close>\<close>

definition players_of :: "state \<Rightarrow> string \<Rightarrow> player list" where
  "players_of s cid = filter (\<lambda>p. challenge_id p = cid) (challenge_players s)"

subsection \<open>Who is asking\<close>

text \<open>
  \<^verbatim>\<open>optionalAuth\<close> sets \<^verbatim>\<open>req.userId\<close> and \<^verbatim>\<open>req.user\<close> from a valid token; \<open>auth\<close> is
  the user id of that token, \<open>None\<close> without one. The handlers then take
  \<^verbatim>\<open>req.userId || userId\<close>, the second from the request body.
\<close>

definition req_user :: "state \<Rightarrow> string option \<Rightarrow> user option" where
  "req_user s auth = (case auth of None \<Rightarrow> None | Some a \<Rightarrow> users s a)"

definition final_user_id :: "string option \<Rightarrow> string \<Rightarrow> string" where
  "final_user_id auth userId = (case auth of None \<Rightarrow> userId | Some a \<Rightarrow> a)"


subsection \<open>The wallet server: challenges\<close>

text \<open>
  \<^verbatim>\<open>POST /api/challenges\<close>. \<open>newId\<close> is the code \<^verbatim>\<open>generateCode()\<close> draws; a code
  already in the table violates the primary key, the insert throws and the handler
  answers 500 before anything is written.
  \<^verbatim>\<open>
  if (req.user && type !== 'solo') {
      const stakeAmountCents = Math.round(stake * 100);
      if (req.user.balance < stakeAmountCents)
          return res.status(400).json({ error: 'Insufficient balance', ... });
  }
  const stakeAmount = Math.round(stake * 100);
  const durationMinutes = type === 'royale' ? null : duration;
  const players = maxPlayers || (type === 'solo' ? 1 : type === 'friend' ? 2 : 5);
  INSERT INTO challenges ...; INSERT INTO challenge_players ... paid = 1;
  if (req.user && type !== 'solo') {
      UPDATE users SET balance = balance - stakeAmount WHERE id = userId;
      INSERT INTO transactions (user_id, 'stake', -stakeAmount, 'Staked for challenge', id);
  }
  \<close>
\<close>

definition create_challenge ::
  "state \<Rightarrow> string option \<Rightarrow> string \<Rightarrow> challenge_type \<Rightarrow> rat \<Rightarrow> int option \<Rightarrow> string
     \<Rightarrow> int option \<Rightarrow> http_error + state" where
  "create_challenge s auth newId type stake duration creatorId maxPlayers =
     (let userId = final_user_id auth creatorId;
          stakeAmount = js_round (stake * 100);
          durationMinutes = (if type = Royale then None else duration);
          default_players = (if type = Solo then 1 else if type = Friend then 2 else 5);
          players = (case maxPlayers of
                       None \<Rightarrow> default_players
                     | Some m \<Rightarrow> if m = 0 then default_players else m);
          escrow = (case req_user s auth of None \<Rightarrow> None
                    | Some u \<Rightarrow> if type = Solo then None else Some u)
      in if (case escrow of None \<Rightarrow> False | Some u \<Rightarrow> balance u < stakeAmount)
         then Inl (HttpError 400 ''Insufficient balance'')
         else if challenges s newId = None then
           (let s1 = s\<lparr>challenges := (challenges s)(newId \<mapsto>
                        \<lparr>ctype = type, creator_id = userId, stake_amount = stakeAmount,
                         duration_minutes = durationMinutes, max_players = players,
                         status = Pending, winner_id = None\<rparr>)\<rparr>;
                s2 = insert_player s1 newId userId
            in case escrow of
                 None \<Rightarrow> Inr s2
               | Some u \<Rightarrow>
                   Inr (insert_transaction
                          (update_user s2 userId (\<lambda>u. u\<lparr>balance := balance u - stakeAmount\<rparr>))
                          \<lparr>tx_user_id = userId, tx_type = Stake, amount = - stakeAmount,
                           description = ''Staked for challenge'',
                           tx_challenge_id = Some newId, stripe_payment_id = None\<rparr>))
         else Inl (HttpError 500 ''UNIQUE constraint failed: challenges.id''))"

text \<open>
  \<^verbatim>\<open>POST /api/challenges/:id/join\<close>
  \<^verbatim>\<open>
  if (!challenge) return res.status(404).json({ error: 'Challenge not found' });
  if (challenge.status !== 'pending')
      return res.status(400).json({ error: 'Challenge already started' });
  const players = SELECT * FROM challenge_players WHERE challenge_id = ?;
  if (players.length >= challenge.max_players)
      return res.status(400).json({ error: 'Challenge is full' });
  if (req.user) {
      if (req.user.balance < challenge.stake_amount)
          return res.status(400).json({ error: 'Insufficient balance', ... });
      UPDATE users SET balance = balance - stake_amount WHERE id = finalUserId;
      INSERT INTO transactions (finalUserId, 'stake', -stake_amount, 'Staked for challenge', id);
  }
  INSERT INTO challenge_players (challenge_id, user_id, user_name, paid) VALUES (?, ?, ?, 1);
  \<close>
\<close>

definition join :: "state \<Rightarrow> string option \<Rightarrow> string \<Rightarrow> string \<Rightarrow> http_error + state" where
  "join s auth userId cid =
     (let finalUserId = final_user_id auth userId
      in case challenges s cid of
           None \<Rightarrow> Inl (HttpError 404 ''Challenge not found'')
         | Some challenge \<Rightarrow>
             if status challenge = Pending then
               if int (length (players_of s cid)) \<ge> max_players challenge
               then Inl (HttpError 400 ''Challenge is full'')
               else (case req_user s auth of
                       None \<Rightarrow> Inr (insert_player s cid finalUserId)
                     | Some u \<Rightarrow>
                         if balance u < stake_amount challenge
                         then Inl (HttpError 400 ''Insufficient balance'')
                         else Inr (insert_player
                                (insert_transaction
                                   (update_user s finalUserId
                                      (\<lambda>u. u\<lparr>balance := balance u - stake_amount challenge\<rparr>))
                                   \<lparr>tx_user_id = finalUserId, tx_type = Stake,
                                    amount = - stake_amount challenge,
                                    description = ''Staked for challenge'',
                                    tx_challenge_id = Some cid, stripe_payment_id = None\<rparr>)
                                cid finalUserId))
             else Inl (HttpError 400 ''Challenge already started''))"

text \<open>
  \<^verbatim>\<open>POST /api/challenges/:id/ready\<close>: it never answers an error and never reads the
  status.
  \<^verbatim>\<open>
  UPDATE challenge_players SET ready = 1 WHERE challenge_id = ? AND user_id = ?;
  const players = SELECT * FROM challenge_players WHERE challenge_id = ?;
  const allReady = players.length >= 2 && players.every(p => p.ready);
  if (allReady) UPDATE challenges SET status = 'active', started_at = ? WHERE id = ?;
  \<close>
\<close>

definition mark_ready :: "state \<Rightarrow> string \<Rightarrow> string \<Rightarrow> state" where
  "mark_ready s userId cid =
     (let s1 = update_players s cid userId (\<lambda>p. p\<lparr>ready := True\<rparr>);
          players = players_of s1 cid;
          allReady = (length players \<ge> 2 \<and> list_all ready players)
      in if allReady then update_challenge s1 cid (\<lambda>c. c\<lparr>status := Active\<rparr>) else s1)"

text \<open>
  \<^verbatim>\<open>
  async function endChallengeWithWinner(challengeId, winnerId, challenge, players) {
      const totalPot = challenge.stake_amount * players.length;
      const fee = getPlatformFee(challenge.stake_amount);
      const winnings = Math.round(totalPot * (100 - fee) / 100);
      UPDATE challenges SET status = 'completed', winner_id = ?, ended_at = ? WHERE id = ?;
      const winner = SELECT * FROM users WHERE id = winnerId;
      if (winner) {
          const streak = winner.current_streak || 0;
          const bonus = getStreakBonus(streak);
          const totalWinnings = Math.round(winnings * (1 + bonus));
          UPDATE users SET balance = balance + totalWinnings WHERE id = winnerId;
          UPDATE users SET total_wins = total_wins + 1, total_sessions = total_sessions + 1,
              money_won = money_won + totalWinnings, current_streak = current_streak + 1,
              best_streak = MAX(best_streak, current_streak + 1), ... WHERE id = winnerId;
          INSERT INTO transactions (winnerId, 'win', totalWinnings, 'Challenge winnings', challengeId);
      }
  }
  \<close>
\<close>

definition endChallengeWithWinner ::
  "state \<Rightarrow> string \<Rightarrow> string \<Rightarrow> challenge \<Rightarrow> player list \<Rightarrow> state" where
  "endChallengeWithWinner s challengeId winnerId challenge players =
     (let totalPot = stake_amount challenge * int (length players);
          fee = getPlatformFee (stake_amount challenge);
          winnings = js_round (of_int (totalPot * (100 - fee)) / 100);
          s1 = update_challenge s challengeId
                 (\<lambda>c. c\<lparr>status := Completed, winner_id := Some winnerId\<rparr>)
      in case users s1 winnerId of
           None \<Rightarrow> s1
         | Some winner \<Rightarrow>
             (let streak = current_streak winner;
                  bonus = getStreakBonus streak;
                  totalWinnings = js_round (of_int winnings * (1 + bonus));
                  s2 = update_user s1 winnerId (\<lambda>u. u\<lparr>balance := balance u + totalWinnings\<rparr>);
                  s3 = update_user s2 winnerId
                         (\<lambda>u. u\<lparr>total_wins := total_wins u + 1,
                                total_sessions := total_sessions u + 1,
                                money_won := money_won u + totalWinnings,
                                current_streak := current_streak u + 1,
                                best_streak := max (best_streak u) (current_streak u + 1)\<rparr>)
              in insert_transaction s3
                   \<lparr>tx_user_id = winnerId, tx_type = Win, amount = totalWinnings,
                    description = ''Challenge winnings'',
                    tx_challenge_id = Some challengeId, stripe_payment_id = None\<rparr>))"

text \<open>
  \<^verbatim>\<open>
  async function endGroupChallenge(challengeId, challenge, players) {
      const survivors = players.filter(p => p.completed && !p.failed);
      const losers = players.filter(p => p.failed);
      if (survivors.length === 0) {
          UPDATE challenges SET status = 'completed', ended_at = ? WHERE id = ?;
          return;
      }
      const loserPot = losers.length * challenge.stake_amount;
      const fee = getPlatformFee(challenge.stake_amount);
      const distributablePot = Math.round(loserPot * (100 - fee) / 100);
      const perSurvivor = Math.floor(distributablePot / survivors.length);
      for (const survivor of survivors) {
          const user = SELECT * FROM users WHERE id = survivor.user_id;
          if (user) {
              const refund = challenge.stake_amount + perSurvivor;
              UPDATE users SET balance = balance + refund WHERE id = survivor.user_id;
              INSERT INTO transactions (survivor.user_id, 'win', refund, 'Group challenge winnings', challengeId);
          }
      }
      UPDATE challenges SET status = 'completed', ended_at = ? WHERE id = ?;
  }
  \<close>
  The loop over the survivors is \<open>refund_survivors\<close>.
\<close>

fun refund_survivors :: "state \<Rightarrow> string \<Rightarrow> int \<Rightarrow> player list \<Rightarrow> state" where
  "refund_survivors s challengeId refund [] = s"
| "refund_survivors s challengeId refund (survivor # rest) =
     refund_survivors
       (case users s (user_id survivor) of
          None \<Rightarrow> s
        | Some user \<Rightarrow>
            insert_transaction
              (update_user s (user_id survivor) (\<lambda>u. u\<lparr>balance := balance u + refund\<rparr>))
              \<lparr>tx_user_id = user_id survivor, tx_type = Win, amount = refund,
               description = ''Group challenge winnings'',
               tx_challenge_id = Some challengeId, stripe_payment_id = None\<rparr>)
       challengeId refund rest"

definition endGroupChallenge :: "state \<Rightarrow> string \<Rightarrow> challenge \<Rightarrow> player list \<Rightarrow> state" where
  "endGroupChallenge s challengeId challenge players =
     (let survivors = filter (\<lambda>p. completed p \<and> \<not> failed p) players;
          losers = filter failed players
      in if length survivors = 0
         then update_challenge s challengeId (\<lambda>c. c\<lparr>status := Completed\<rparr>)
         else
           (let loserPot = int (length losers) * stake_amount challenge;
                fee = getPlatformFee (stake_amount challenge);
                distributablePot = js_round (of_int (loserPot * (100 - fee)) / 100);
                perSurvivor = distributablePot div int (length survivors);
                s1 = refund_survivors s challengeId (stake_amount challenge + perSurvivor) survivors
            in update_challenge s1 challengeId (\<lambda>c. c\<lparr>status := Completed\<rparr>)))"

text \<open>
  \<^verbatim>\<open>POST /api/challenges/:id/fail\<close>: the status of the challenge is never read.
  \<^verbatim>\<open>
  if (!challenge) return res.status(404).json({ error: 'Challenge not found' });
  UPDATE challenge_players SET failed = 1, failed_at = ? WHERE challenge_id = ? AND user_id = ?;
  const user = SELECT * FROM users WHERE id = finalUserId;
  if (user) {
      UPDATE users SET money_lost = money_lost + stake_amount, current_streak = 0 WHERE id = ?;
      INSERT INTO transactions (finalUserId, 'loss', -stake_amount, 'Lost stake', id);
  }
  const players = SELECT * FROM challenge_players WHERE challenge_id = ?;
  const activePlayers = players.filter(p => !p.failed);
  if (challenge.type === 'friend' && activePlayers.length === 1) {
      await endChallengeWithWinner(id, activePlayers[0].user_id, challenge, players);
  } else if ((challenge.type === 'royale' || challenge.type === 'group')
             && activePlayers.length === 1) {
      await endChallengeWithWinner(id, activePlayers[0].user_id, challenge, players);
  }
  \<close>
\<close>

definition record_loss :: "state \<Rightarrow> string \<Rightarrow> string \<Rightarrow> challenge \<Rightarrow> state" where
  "record_loss s cid finalUserId challenge =
     (case users s finalUserId of
        None \<Rightarrow> s
      | Some user \<Rightarrow>
          insert_transaction
            (update_user s finalUserId
               (\<lambda>u. u\<lparr>money_lost := money_lost u + stake_amount challenge,
                      current_streak := 0\<rparr>))
            \<lparr>tx_user_id = finalUserId, tx_type = Loss, amount = - stake_amount challenge,
             description = ''Lost stake'', tx_challenge_id = Some cid,
             stripe_payment_id = None\<rparr>)"

definition fail :: "state \<Rightarrow> string option \<Rightarrow> string \<Rightarrow> string \<Rightarrow> http_error + state" where
  "fail s auth userId cid =
     (let finalUserId = final_user_id auth userId
      in case challenges s cid of
           None \<Rightarrow> Inl (HttpError 404 ''Challenge not found'')
         | Some challenge \<Rightarrow>
             (let s1 = update_players s cid finalUserId (\<lambda>p. p\<lparr>failed := True\<rparr>);
                  s2 = record_loss s1 cid finalUserId challenge;
                  players = players_of s2 cid;
                  activePlayers = filter (\<lambda>p. \<not> failed p) players
              in if ctype challenge = Friend \<and> length activePlayers = 1
                 then Inr (endChallengeWithWinner s2 cid (user_id (hd activePlayers))
                             challenge players)
                 else if (ctype challenge = Royale \<or> ctype challenge = Group)
                           \<and> length activePlayers = 1
                 then Inr (endChallengeWithWinner s2 cid (user_id (hd activePlayers))
                             challenge players)
                 else Inr s2))"

text \<open>
  \<^verbatim>\<open>POST /api/challenges/:id/complete\<close>
  \<^verbatim>\<open>
  if (!challenge) return res.status(404).json({ error: 'Challenge not found' });
  UPDATE challenge_players SET completed = 1 WHERE challenge_id = ? AND user_id = ?;
  if (challenge.type === 'solo') {
      const user = SELECT * FROM users WHERE id = finalUserId;
      if (user) UPDATE users SET total_wins = total_wins + 1, total_sessions = total_sessions + 1,
          total_focus_minutes = total_focus_minutes + (duration_minutes || 0),
          current_streak = current_streak + 1,
          best_streak = MAX(best_streak, current_streak + 1), ... WHERE id = finalUserId;
      UPDATE challenges SET status = 'completed', winner_id = finalUserId, ended_at = ? WHERE id = ?;
      return;
  }
  const players = SELECT * FROM challenge_players WHERE challenge_id = ?;
  const completedPlayers = players.filter(p => p.completed);
  const failedPlayers = players.filter(p => p.failed);
  if (challenge.type === 'group'
      && completedPlayers.length + failedPlayers.length === players.length)
      await endGroupChallenge(id, challenge, players);
  \<close>
\<close>

definition complete :: "state \<Rightarrow> string option \<Rightarrow> string \<Rightarrow> string \<Rightarrow> http_error + state" where
  "complete s auth userId cid =
     (let finalUserId = final_user_id auth userId
      in case challenges s cid of
           None \<Rightarrow> Inl (HttpError 404 ''Challenge not found'')
         | Some challenge \<Rightarrow>
             (let s1 = update_players s cid finalUserId (\<lambda>p. p\<lparr>completed := True\<rparr>)
              in if ctype challenge = Solo then
                   (let s2 = update_user s1 finalUserId
                          (\<lambda>u. u\<lparr>total_wins := total_wins u + 1,
                                 total_sessions := total_sessions u + 1,
                                 total_focus_minutes := total_focus_minutes u +
                                   (case duration_minutes challenge of None \<Rightarrow> 0 | Some d \<Rightarrow> d),
                                 current_streak := current_streak u + 1,
                                 best_streak := max (best_streak u) (current_streak u + 1)\<rparr>)
                    in Inr (update_challenge s2 cid
                              (\<lambda>c. c\<lparr>status := Completed, winner_id := Some finalUserId\<rparr>)))
                 else
                   (let players = players_of s1 cid;
                        completedPlayers = filter completed players;
                        failedPlayers = filter failed players
                    in if ctype challenge = Group \<and>
                          length completedPlayers + length failedPlayers = length players
                       then Inr (endGroupChallenge s1 cid challenge players)
                       else Inr s1)))"


subsection \<open>The wallet server: deposits and withdrawals\<close>

text \<open>
  The wallet routes run behind \<^verbatim>\<open>authMiddleware\<close>, which answers 401 unless the token
  names a row of \<^verbatim>\<open>users\<close>; \<open>userId\<close> is the id of the token. Stripe is outside the
  program: each handler takes Stripe's answer as an argument, \<open>None\<close> when the call
  throws (the handler then answers 500).
\<close>

record payment_intent =
  pi_status :: string
  pi_metadata_userId :: string
  pi_amount :: int

datatype confirm_reply = AlreadyProcessed | NewBalance int

text \<open>
  \<^verbatim>\<open>POST /api/wallet/confirm-funds\<close>
  \<^verbatim>\<open>
  const paymentIntent = await stripe.paymentIntents.retrieve(paymentIntentId);
  if (paymentIntent.status !== 'succeeded')
      return res.status(400).json({ error: 'Payment not completed' });
  if (paymentIntent.metadata.userId !== req.userId)
      return res.status(403).json({ error: 'Payment does not belong to this user' });
  const existing = SELECT id FROM transactions WHERE stripe_payment_id = paymentIntentId;
  if (existing) return res.json({ success: true, message: 'Already processed' });
  const amount = paymentIntent.amount;
  UPDATE users SET balance = balance + amount WHERE id = req.userId;
  INSERT INTO transactions (user_id, type, amount, description, stripe_payment_id)
      VALUES (req.userId, 'deposit', amount, 'Added funds', paymentIntentId);
  \<close>
\<close>

definition confirm_funds ::
  "state \<Rightarrow> string \<Rightarrow> string \<Rightarrow> payment_intent option \<Rightarrow> http_error + confirm_reply \<times> state" where
  "confirm_funds s userId paymentIntentId retrieved =
     (case users s userId of
        None \<Rightarrow> Inl (HttpError 401 ''User not found'')
      | Some req_usr \<Rightarrow>
          (case retrieved of
             None \<Rightarrow> Inl (HttpError 500 ''stripe.paymentIntents.retrieve'')
           | Some paymentIntent \<Rightarrow>
               if pi_status paymentIntent = ''succeeded'' then
                 if pi_metadata_userId paymentIntent = userId then
                   if list_ex (\<lambda>t. stripe_payment_id t = Some paymentIntentId) (transactions s)
                   then Inr (AlreadyProcessed, s)
                   else
                     (let cents = pi_amount paymentIntent;
                          s1 = update_user s userId (\<lambda>u. u\<lparr>balance := balance u + cents\<rparr>);
                          s2 = insert_transaction s1
                                 \<lparr>tx_user_id = userId, tx_type = Deposit, amount = cents,
                                  description = ''Added funds'', tx_challenge_id = None,
                                  stripe_payment_id = Some paymentIntentId\<rparr>
                      in Inr (NewBalance (case users s2 userId of None \<Rightarrow> 0
                                          | Some u \<Rightarrow> balance u), s2))
                 else Inl (HttpError 403 ''Payment does not belong to this user'')
               else Inl (HttpError 400 ''Payment not completed'')))"

text \<open>
  \<^verbatim>\<open>POST /api/wallet/add-funds\<close>; \<open>dollars\<close> is the body's \<^verbatim>\<open>amount\<close>, \<open>None\<close> when the body has
  none. \<open>customer\<close> is what \<^verbatim>\<open>stripe.customers.create\<close> answers when it is called,
  \<open>intent\<close> the id \<^verbatim>\<open>stripe.paymentIntents.create\<close> answers. The result names the
  payment intent that was created, with its amount in cents.
  \<^verbatim>\<open>
  if (!amount || amount < 5) return res.status(400).json({ error: 'Minimum amount is $5' });
  if (amount > 500) return res.status(400).json({ error: 'Maximum amount is $500' });
  let customerId = req.user.stripe_customer_id;
  if (!customerId) {
      const customer = await stripe.customers.create(...);
      customerId = customer.id;
      UPDATE users SET stripe_customer_id = customerId WHERE id = req.userId;
  }
  const paymentIntent = await stripe.paymentIntents.create({
      amount: Math.round(amount * 100), currency: 'usd', customer: customerId, ... });
  \<close>
\<close>

definition add_funds ::
  "state \<Rightarrow> string \<Rightarrow> rat option \<Rightarrow> string option \<Rightarrow> string option
     \<Rightarrow> (http_error + string \<times> int) \<times> state" where
  "add_funds s userId dollars customer intent =
     (case users s userId of
        None \<Rightarrow> (Inl (HttpError 401 ''User not found''), s)
      | Some req_usr \<Rightarrow>
          (case dollars of
             None \<Rightarrow> (Inl (HttpError 400 ''Minimum amount is $5''), s)
           | Some a \<Rightarrow>
               if a = 0 \<or> a < 5 then (Inl (HttpError 400 ''Minimum amount is $5''), s)
               else if a > 500 then (Inl (HttpError 400 ''Maximum amount is $500''), s)
               else
                 (let known = (case stripe_customer_id req_usr of
                                 None \<Rightarrow> None
                               | Some c \<Rightarrow> if c = [] then None else Some c);
                      created = (case known of None \<Rightarrow> customer | Some c \<Rightarrow> Some c);
                      s1 = (case known of
                              None \<Rightarrow>
                                (case customer of
                                   None \<Rightarrow> s
                                 | Some c \<Rightarrow>
                                     update_user s userId (\<lambda>u. u\<lparr>stripe_customer_id := Some c\<rparr>))
                            | Some c \<Rightarrow> s)
                  in case created of
                       None \<Rightarrow> (Inl (HttpError 500 ''stripe.customers.create''), s1)
                     | Some c \<Rightarrow>
                         (case intent of
                            None \<Rightarrow> (Inl (HttpError 500 ''stripe.paymentIntents.create''), s1)
                          | Some i \<Rightarrow> (Inr (i, js_round (a * 100)), s1)))))"

text \<open>
  \<^verbatim>\<open>POST /api/wallet/withdraw\<close>; \<open>dollars\<close> is the body's \<^verbatim>\<open>amount\<close>, \<open>transfer\<close> the id
  \<^verbatim>\<open>stripe.transfers.create\<close> answers.
  \<^verbatim>\<open>
  const amountCents = Math.round(amount * 100);
  if (amountCents < 1000) return res.status(400).json({ error: 'Minimum withdrawal is $10' });
  if (amountCents > req.user.balance)
      return res.status(400).json({ error: 'Insufficient balance' });
  if (!req.user.stripe_connect_id || !req.user.stripe_connect_verified)
      return res.status(400).json({ error: 'Please set up withdrawals first' });
  const transfer = await stripe.transfers.create({ amount: amountCents, ... });
  UPDATE users SET balance = balance - amountCents WHERE id = req.userId;
  INSERT INTO transactions (user_id, type, amount, description, stripe_payment_id)
      VALUES (req.userId, 'withdrawal', -amountCents, 'Withdrawal to bank', transfer.id);
  \<close>
\<close>

definition withdraw :: "state \<Rightarrow> string \<Rightarrow> rat \<Rightarrow> string option \<Rightarrow> http_error + state" where
  "withdraw s userId dollars transfer =
     (case users s userId of
        None \<Rightarrow> Inl (HttpError 401 ''User not found'')
      | Some req_usr \<Rightarrow>
          (let amountCents = js_round (dollars * 100)
           in if amountCents < 1000 then Inl (HttpError 400 ''Minimum withdrawal is $10'')
              else if amountCents > balance req_usr
              then Inl (HttpError 400 ''Insufficient balance'')
              else if stripe_connect_id req_usr = None \<or> stripe_connect_id req_usr = Some []
                        \<or> \<not> stripe_connect_verified req_usr
              then Inl (HttpError 400 ''Please set up withdrawals first'')
              else (case transfer of
                      None \<Rightarrow> Inl (HttpError 500 ''stripe.transfers.create'')
                    | Some transfer_id \<Rightarrow>
                        Inr (insert_transaction
                               (update_user s userId
                                  (\<lambda>u. u\<lparr>balance := balance u - amountCents\<rparr>))
                               \<lparr>tx_user_id = userId, tx_type = Withdrawal,
                                amount = - amountCents,
                                description = ''Withdrawal to bank'',
                                tx_challenge_id = None,
                                stripe_payment_id = Some transfer_id\<rparr>))))"

text \<open>
  \<^verbatim>\<open>POST /api/wallet/setup-withdraw\<close>; \<open>account\<close> is the id
  \<^verbatim>\<open>stripe.accounts.create\<close> answers when it is called, \<open>link\<close> the URL
  \<^verbatim>\<open>stripe.accountLinks.create\<close> answers.
  \<^verbatim>\<open>
  let connectId = req.user.stripe_connect_id;
  if (!connectId) {
      const account = await stripe.accounts.create(...);
      connectId = account.id;
      UPDATE users SET stripe_connect_id = connectId WHERE id = req.userId;
  }
  const accountLink = await stripe.accountLinks.create({ account: connectId, ... });
  \<close>
  The Stripe webhook verifies the account:
  \<^verbatim>\<open>
  case 'account.updated':
      if (account.charges_enabled && account.payouts_enabled)
          UPDATE users SET stripe_connect_verified = 1 WHERE stripe_connect_id = account.id;
  \<close>
\<close>

definition setup_withdraw ::
  "state \<Rightarrow> string \<Rightarrow> string option \<Rightarrow> string option \<Rightarrow> http_error option \<times> state" where
  "setup_withdraw s userId account link =
     (case users s userId of
        None \<Rightarrow> (Some (HttpError 401 ''User not found''), s)
      | Some req_usr \<Rightarrow>
          (let known = (case stripe_connect_id req_usr of
                          None \<Rightarrow> None
                        | Some c \<Rightarrow> if c = [] then None else Some c)
           in case known of
                Some c \<Rightarrow>
                  (case link of
                     None \<Rightarrow> (Some (HttpError 500 ''stripe.accountLinks.create''), s)
                   | Some url \<Rightarrow> (None, s))
              | None \<Rightarrow>
                  (case account of
                     None \<Rightarrow> (Some (HttpError 500 ''stripe.accounts.create''), s)
                   | Some c \<Rightarrow>
                       (let s1 = update_user s userId (\<lambda>u. u\<lparr>stripe_connect_id := Some c\<rparr>)
                        in case link of
                             None \<Rightarrow> (Some (HttpError 500 ''stripe.accountLinks.create''), s1)
                           | Some url \<Rightarrow> (None, s1)))))"

definition account_updated :: "state \<Rightarrow> string \<Rightarrow> bool \<Rightarrow> bool \<Rightarrow> state" where
  "account_updated s account_id charges_enabled payouts_enabled =
     (if charges_enabled \<and> payouts_enabled
      then s\<lparr>users := (\<lambda>k. map_option
                 (\<lambda>u. if stripe_connect_id u = Some account_id
                      then u\<lparr>stripe_connect_verified := True\<rparr> else u)
                 (users s k))\<rparr>
      else s)"

subsection \<open>The statistics-only server\<close>

text \<open>
  \<^verbatim>\<open>src/server/index.js\<close> has no balance and no transactions; its \<^verbatim>\<open>users\<close> rows are
  created on first contact by \<^verbatim>\<open>getOrCreateUser\<close>, with every statistic at 0.
  \<^verbatim>\<open>
  function getOrCreateUser(userId, userName) {
      let user = SELECT * FROM users WHERE id = userId;
      if (!user) INSERT INTO users (id, name) VALUES (userId, userName || 'Anonymous');
      ...
  }
  \<close>
  \<^verbatim>\<open>POST /api/challenges/:id/join\<close> of that server:
  \<^verbatim>\<open>
  if (!challenge) return res.status(404).json({ error: 'Challenge not found' });
  const players = SELECT * FROM challenge_players WHERE challenge_id = ?;
  const existing = players.find(p => p.user_id === userId);
  if (existing) {
      if (!existing.paid)
          UPDATE challenge_players SET paid = 1 WHERE challenge_id = ? AND user_id = ?;
  } else {
      if (players.length >= challenge.max_players)
          return res.status(400).json({ error: 'Challenge is full' });
      getOrCreateUser(userId, userName);
      INSERT INTO challenge_players (challenge_id, user_id, user_name, paid) VALUES (?, ?, ?, 1);
  }
  \<close>
\<close>

definition getOrCreateUser :: "state \<Rightarrow> string \<Rightarrow> state" where
  "getOrCreateUser s userId =
     (case users s userId of
        None \<Rightarrow> s\<lparr>users := (users s)(userId \<mapsto> new_user)\<rparr>
      | Some user \<Rightarrow> s)"

definition index_join :: "state \<Rightarrow> string \<Rightarrow> string \<Rightarrow> http_error + state" where
  "index_join s userId cid =
     (case challenges s cid of
        None \<Rightarrow> Inl (HttpError 404 ''Challenge not found'')
      | Some challenge \<Rightarrow>
          (let players = players_of s cid
           in case find (\<lambda>p. user_id p = userId) players of
                Some existing \<Rightarrow>
                  if paid existing then Inr s
                  else Inr (update_players s cid userId (\<lambda>p. p\<lparr>paid := True\<rparr>))
              | None \<Rightarrow>
                  if int (length players) \<ge> max_players challenge
                  then Inl (HttpError 400 ''Challenge is full'')
                  else Inr (insert_player (getOrCreateUser s userId) cid userId)))"


text \<open>
  \<^verbatim>\<open>POST /api/challenges\<close> of that server. The user row is written first, so it stays
  when the challenge insert throws on a code that is taken.
  \<^verbatim>\<open>
  const id = generateCode();
  const stakeAmount = Math.round(stake * 100);
  getOrCreateUser(creatorId, creatorName);
  const durationMinutes = type === 'royale' ? null : duration;
  const players = maxPlayers || (type === 'solo' ? 1 : type === 'friend' ? 2 : 5);
  INSERT INTO challenges ...; INSERT INTO challenge_players ... paid = 1;
  \<close>
\<close>

definition index_create ::
  "state \<Rightarrow> string \<Rightarrow> challenge_type \<Rightarrow> rat \<Rightarrow> int option \<Rightarrow> string \<Rightarrow> int option
     \<Rightarrow> http_error option \<times> state" where
  "index_create s newId type stake duration creatorId maxPlayers =
     (let stakeAmount = js_round (stake * 100);
          s1 = getOrCreateUser s creatorId;
          durationMinutes = (if type = Royale then None else duration);
          default_players = (if type = Solo then 1 else if type = Friend then 2 else 5);
          players = (case maxPlayers of
                       None \<Rightarrow> default_players
                     | Some m \<Rightarrow> if m = 0 then default_players else m)
      in if challenges s1 newId = None then
           (None,
            insert_player
              (s1\<lparr>challenges := (challenges s1)(newId \<mapsto>
                    \<lparr>ctype = type, creator_id = creatorId, stake_amount = stakeAmount,
                     duration_minutes = durationMinutes, max_players = players,
                     status = Pending, winner_id = None\<rparr>)\<rparr>)
              newId creatorId)
         else (Some (HttpError 500 ''UNIQUE constraint failed: challenges.id''), s1))"

text \<open>
  \<^verbatim>\<open>POST /api/challenges/:id/ready\<close> of that server; \<^verbatim>\<open>challenge.type\<close> throws when the
  challenge is missing, after the player rows were updated.
  \<^verbatim>\<open>
  UPDATE challenge_players SET ready = 1 WHERE challenge_id = ? AND user_id = ?;
  const challenge = SELECT * FROM challenges WHERE id = ?;
  const players = SELECT * FROM challenge_players WHERE challenge_id = ?;
  const paidPlayers = players.filter(p => p.paid);
  const allReady = paidPlayers.every(p => p.ready);
  const minPlayers = challenge.type === 'solo' ? 1 : 2;
  if (allReady && paidPlayers.length >= minPlayers)
      UPDATE challenges SET status = 'active', started_at = ? WHERE id = ?;
  \<close>
\<close>

definition index_ready :: "state \<Rightarrow> string \<Rightarrow> string \<Rightarrow> http_error option \<times> state" where
  "index_ready s userId cid =
     (let s1 = update_players s cid userId (\<lambda>p. p\<lparr>ready := True\<rparr>)
      in case challenges s1 cid of
           None \<Rightarrow> (Some (HttpError 500 ''Cannot read properties of undefined''), s1)
         | Some challenge \<Rightarrow>
             (let players = players_of s1 cid;
                  paidPlayers = filter paid players;
                  allReady = list_all ready paidPlayers;
                  minPlayers = (if ctype challenge = Solo then 1 else 2 :: nat)
              in if allReady \<and> length paidPlayers \<ge> minPlayers
                 then (None, update_challenge s1 cid (\<lambda>c. c\<lparr>status := Active\<rparr>))
                 else (None, s1)))"

text \<open>
  \<^verbatim>\<open>POST /api/challenges/:id/fail\<close> of that server (what it stores; the winnings it
  broadcasts are computed a second time and not kept).
  \<^verbatim>\<open>
  if (!challenge) return res.status(404).json({ error: 'Challenge not found' });
  UPDATE challenge_players SET failed = 1, failed_at = ? WHERE challenge_id = ? AND user_id = ?;
  const players = SELECT * FROM challenge_players WHERE challenge_id = ? AND paid = 1;
  const activePlayers = players.filter(p => !p.failed);
  const user = SELECT * FROM users WHERE id = userId;
  if (user) UPDATE users SET total_sessions = total_sessions + 1,
      money_lost = money_lost + stake_amount, current_streak = 0 WHERE id = userId;
  let shouldEnd = false; let winnerId = null;
  if (challenge.type === 'solo') { shouldEnd = true; }
  else if (challenge.type === 'royale' || challenge.type === 'group') {
      if (activePlayers.length <= 1) {
          shouldEnd = true; winnerId = activePlayers[0]?.user_id || null; }
  } else if (challenge.type === 'friend') {
      shouldEnd = true; winnerId = activePlayers[0]?.user_id || null; }
  if (shouldEnd) {
      UPDATE challenges SET status = 'completed', winner_id = winnerId, ended_at = ? WHERE id = ?;
      if (winnerId) {
          const fee = getPlatformFee(challenge.stake_amount);
          const totalPot = challenge.stake_amount * players.length;
          let winnings = Math.round(totalPot * (100 - fee) / 100);
          const winner = SELECT * FROM users WHERE id = winnerId;
          if (winner) {
              const streakBonus = getStreakBonus(winner.current_streak);
              const bonus = Math.round(winnings * streakBonus);
              winnings += bonus;
          }
          UPDATE users SET total_sessions = total_sessions + 1, total_wins = total_wins + 1,
              money_won = money_won + winnings, current_streak = current_streak + 1,
              best_streak = MAX(best_streak, current_streak + 1) WHERE id = winnerId;
      }
  }
  \<close>
\<close>

definition first_active :: "player list \<Rightarrow> string option" where
  "first_active activePlayers =
     (case activePlayers of
        [] \<Rightarrow> None
      | p # rest \<Rightarrow> if user_id p = [] then None else Some (user_id p))"

definition index_fail :: "state \<Rightarrow> string \<Rightarrow> string \<Rightarrow> http_error + state" where
  "index_fail s userId cid =
     (case challenges s cid of
        None \<Rightarrow> Inl (HttpError 404 ''Challenge not found'')
      | Some challenge \<Rightarrow>
          (let s1 = update_players s cid userId (\<lambda>p. p\<lparr>failed := True\<rparr>);
               players = filter paid (players_of s1 cid);
               activePlayers = filter (\<lambda>p. \<not> failed p) players;
               s2 = update_user s1 userId
                      (\<lambda>u. u\<lparr>total_sessions := total_sessions u + 1,
                             money_lost := money_lost u + stake_amount challenge,
                             current_streak := 0\<rparr>);
               verdict =
                 (if ctype challenge = Solo then (True, None)
                  else if ctype challenge = Royale \<or> ctype challenge = Group then
                    (if length activePlayers \<le> 1 then (True, first_active activePlayers)
                     else (False, None))
                  else if ctype challenge = Friend then (True, first_active activePlayers)
                  else (False, None))
           in case verdict of
                (False, winnerId) \<Rightarrow> Inr s2
              | (True, winnerId) \<Rightarrow>
                  (let s3 = update_challenge s2 cid
                              (\<lambda>c. c\<lparr>status := Completed, winner_id := winnerId\<rparr>)
                   in case winnerId of
                        None \<Rightarrow> Inr s3
                      | Some w \<Rightarrow>
                          (let fee = getPlatformFee (stake_amount challenge);
                               totalPot = stake_amount challenge * int (length players);
                               winnings = js_round (of_int (totalPot * (100 - fee)) / 100);
                               winnings' =
                                 (case users s3 w of
                                    None \<Rightarrow> winnings
                                  | Some winner \<Rightarrow>
                                      winnings + js_round (of_int winnings *
                                        getStreakBonus (current_streak winner)))
                           in Inr (update_user s3 w
                                (\<lambda>u. u\<lparr>total_sessions := total_sessions u + 1,
                                       total_wins := total_wins u + 1,
                                       money_won := money_won u + winnings',
                                       current_streak := current_streak u + 1,
                                       best_streak :=
                                         max (best_streak u) (current_streak u + 1)\<rparr>))))))"

text \<open>
  \<^verbatim>\<open>POST /api/challenges/:id/complete\<close> of that server.
  \<^verbatim>\<open>
  if (!challenge) return res.status(404).json({ error: 'Challenge not found' });
  UPDATE challenge_players SET completed = 1 WHERE challenge_id = ? AND user_id = ?;
  const players = SELECT * FROM challenge_players WHERE challenge_id = ? AND paid = 1;
  if (challenge.duration_minutes)
      UPDATE users SET total_focus_minutes = total_focus_minutes + ? WHERE id = userId;
  const activePlayers = players.filter(p => !p.failed);
  const allCompleted = activePlayers.every(p => p.completed);
  if (allCompleted && challenge.type !== 'royale') {
      const failedPlayers = players.filter(p => p.failed);
      const winners = activePlayers;
      if (challenge.type === 'solo') {
          UPDATE challenges SET status = 'completed', winner_id = userId, ended_at = ? WHERE id = ?;
          UPDATE users SET total_sessions = total_sessions + 1, total_wins = total_wins + 1,
              current_streak = current_streak + 1,
              best_streak = MAX(best_streak, current_streak + 1) WHERE id = userId;
      } else if (challenge.type === 'group' && failedPlayers.length > 0) {
          const fee = getPlatformFee(challenge.stake_amount);
          const loserPot = challenge.stake_amount * failedPlayers.length;
          const winningsPerPerson = Math.round((loserPot * (100 - fee) / 100) / winners.length);
          UPDATE challenges SET status = 'completed', ended_at = ? WHERE id = ?;
          for (const winner of winners)
              UPDATE users SET total_sessions = total_sessions + 1, total_wins = total_wins + 1,
                  money_won = money_won + winningsPerPerson, current_streak = current_streak + 1,
                  best_streak = MAX(best_streak, current_streak + 1) WHERE id = winner.user_id;
      } else {
          UPDATE challenges SET status = 'completed', winner_id = 'draw', ended_at = ? WHERE id = ?;
          for (const player of activePlayers)
              UPDATE users SET total_sessions = total_sessions + 1,
                  current_streak = current_streak + 1,
                  best_streak = MAX(best_streak, current_streak + 1) WHERE id = player.user_id;
      }
  }
  \<close>
  \<open>winningsPerPerson\<close> is read only inside the loop over \<open>winners\<close>, so never when
  \<open>winners.length\<close> is 0.
\<close>

fun update_each :: "state \<Rightarrow> (user \<Rightarrow> user) \<Rightarrow> player list \<Rightarrow> state" where
  "update_each s f [] = s"
| "update_each s f (p # rest) = update_each (update_user s (user_id p) f) f rest"

definition index_complete :: "state \<Rightarrow> string \<Rightarrow> string \<Rightarrow> http_error + state" where
  "index_complete s userId cid =
     (case challenges s cid of
        None \<Rightarrow> Inl (HttpError 404 ''Challenge not found'')
      | Some challenge \<Rightarrow>
          (let s1 = update_players s cid userId (\<lambda>p. p\<lparr>completed := True\<rparr>);
               players = filter paid (players_of s1 cid);
               s2 = (case duration_minutes challenge of
                       None \<Rightarrow> s1
                     | Some d \<Rightarrow>
                         if d = 0 then s1
                         else update_user s1 userId
                                (\<lambda>u. u\<lparr>total_focus_minutes := total_focus_minutes u + d\<rparr>));
               activePlayers = filter (\<lambda>p. \<not> failed p) players;
               allCompleted = list_all completed activePlayers
           in if allCompleted \<and> ctype challenge \<noteq> Royale then
                (let failedPlayers = filter failed players;
                     winners = activePlayers
                 in if ctype challenge = Solo then
                      Inr (update_user
                             (update_challenge s2 cid
                                (\<lambda>c. c\<lparr>status := Completed, winner_id := Some userId\<rparr>))
                             userId
                             (\<lambda>u. u\<lparr>total_sessions := total_sessions u + 1,
                                    total_wins := total_wins u + 1,
                                    current_streak := current_streak u + 1,
                                    best_streak := max (best_streak u) (current_streak u + 1)\<rparr>))
                    else if ctype challenge = Group \<and> length failedPlayers > 0 then
                      (let fee = getPlatformFee (stake_amount challenge);
                           loserPot = stake_amount challenge * int (length failedPlayers);
                           winningsPerPerson =
                             js_round (of_int (loserPot * (100 - fee)) / 100
                                         / of_nat (length winners))
                       in Inr (update_each
                                 (update_challenge s2 cid (\<lambda>c. c\<lparr>status := Completed\<rparr>))
                                 (\<lambda>u. u\<lparr>total_sessions := total_sessions u + 1,
                                        total_wins := total_wins u + 1,
                                        money_won := money_won u + winningsPerPerson,
                                        current_streak := current_streak u + 1,
                                        best_streak :=
                                          max (best_streak u) (current_streak u + 1)\<rparr>)
                                 winners))
                    else
                      Inr (update_each
                             (update_challenge s2 cid
                                (\<lambda>c. c\<lparr>status := Completed, winner_id := Some ''draw''\<rparr>))
                             (\<lambda>u. u\<lparr>total_sessions := total_sessions u + 1,
                                    current_streak := current_streak u + 1,
                                    best_streak := max (best_streak u) (current_streak u + 1)\<rparr>)
                             activePlayers))
              else Inr s2))"

subsection \<open>Requests\<close>

text \<open>
  One request to either server, and the database after it. An error answer of the
  wallet server leaves the database as it was: each of its handlers returns the error
  before its first write, but for \<open>add_funds\<close> and \<open>setup_withdraw\<close>, which keep
  the Stripe id they stored when a later Stripe call throws.
\<close>

datatype request =
    CreateChallenge "string option" string challenge_type rat "int option" string "int option"
  | Join "string option" string string
  | Ready string string
  | Fail "string option" string string
  | Complete "string option" string string
  | ConfirmFunds string string "payment_intent option"
  | AddFunds string "rat option" "string option" "string option"
  | Withdraw string rat "string option"
  | SetupWithdraw string "string option" "string option"
  | AccountUpdated string bool bool

definition keep :: "state \<Rightarrow> http_error + state \<Rightarrow> state" where
  "keep s r = (case r of Inl e \<Rightarrow> s | Inr s' \<Rightarrow> s')"

fun handle :: "state \<Rightarrow> request \<Rightarrow> state" where
  "handle s (CreateChallenge auth newId type stake duration creatorId maxPlayers) =
     keep s (create_challenge s auth newId type stake duration creatorId maxPlayers)"
| "handle s (Join auth userId cid) = keep s (join s auth userId cid)"
| "handle s (Ready userId cid) = mark_ready s userId cid"
| "handle s (Fail auth userId cid) = keep s (fail s auth userId cid)"
| "handle s (Complete auth userId cid) = keep s (complete s auth userId cid)"
| "handle s (ConfirmFunds userId paymentIntentId retrieved) =
     (case confirm_funds s userId paymentIntentId retrieved of
        Inl e \<Rightarrow> s
      | Inr (reply, s') \<Rightarrow> s')"
| "handle s (AddFunds userId dollars customer intent) =
     snd (add_funds s userId dollars customer intent)"
| "handle s (Withdraw userId dollars transfer) = keep s (withdraw s userId dollars transfer)"
| "handle s (SetupWithdraw userId account link) = snd (setup_withdraw s userId account link)"
| "handle s (AccountUpdated account_id charges_enabled payouts_enabled) =
     account_updated s account_id charges_enabled payouts_enabled"

text \<open>
  The statistics-only server has no tokens and no wallet routes: it reads the user id
  from the body and answers 404 to a wallet request.
\<close>

fun index_handle :: "state \<Rightarrow> request \<Rightarrow> state" where
  "index_handle s (CreateChallenge auth newId type stake duration creatorId maxPlayers) =
     snd (index_create s newId type stake duration creatorId maxPlayers)"
| "index_handle s (Join auth userId cid) = keep s (index_join s userId cid)"
| "index_handle s (Ready userId cid) = snd (index_ready s userId cid)"
| "index_handle s (Fail auth userId cid) = keep s (index_fail s userId cid)"
| "index_handle s (Complete auth userId cid) = keep s (index_complete s userId cid)"
| "index_handle s (ConfirmFunds userId paymentIntentId retrieved) = s"
| "index_handle s (AddFunds userId dollars customer intent) = s"
| "index_handle s (Withdraw userId dollars transfer) = s"
| "index_handle s (SetupWithdraw userId account link) = s"
| "index_handle s (AccountUpdated account_id charges_enabled payouts_enabled) = s"

definition run :: "state \<Rightarrow> request list \<Rightarrow> state" where
  "run s rs = foldl handle s rs"

definition index_run :: "state \<Rightarrow> request list \<Rightarrow> state" where
  "index_run s rs = foldl index_handle s rs"

text \<open>Which requests can move a challenge: a ready request, and a fail or complete.\<close>

fun readies :: "request \<Rightarrow> string \<Rightarrow> bool" where
  "readies (Ready userId cid) c = (cid = c)"
| "readies r c = False"

fun ends :: "request \<Rightarrow> string \<Rightarrow> bool" where
  "ends (Fail auth userId cid) c = (cid = c)"
| "ends (Complete auth userId cid) c = (cid = c)"
| "ends r c = False"

subsection \<open>The ledger read back\<close>

text \<open>The signed sum of a user's rows of \<^verbatim>\<open>transactions\<close>.\<close>

definition ledger_sum :: "state \<Rightarrow> string \<Rightarrow> int" where
  "ledger_sum s uid =
     sum_list (map amount (filter (\<lambda>t. tx_user_id t = uid) (transactions s)))"

text \<open>How far a user's balance is from that sum (0 for a user without a row).\<close>

definition drift :: "state \<Rightarrow> string \<Rightarrow> int" where
  "drift s u = (case users s u of None \<Rightarrow> 0 | Some usr \<Rightarrow> balance usr) - ledger_sum s u"

definition balance_of :: "state \<Rightarrow> string \<Rightarrow> int option" where
  "balance_of s uid = map_option balance (users s uid)"

definition status_of :: "state \<Rightarrow> string \<Rightarrow> challenge_status option" where
  "status_of s cid = map_option status (challenges s cid)"

definition winner_of :: "state \<Rightarrow> string \<Rightarrow> string option" where
  "winner_of s cid = (case challenges s cid of None \<Rightarrow> None | Some c \<Rightarrow> winner_id c)"

subsection \<open>Sessions\<close>

text \<open>
  Alice and Bob have signed up (a new row each) and pay 50 dollars in; Stripe answers
  \<open>succeeded_for\<close>. Alice opens a 10 dollar duel, Bob joins, both are ready, Bob fails.
\<close>

definition signed_up :: state where
  "signed_up = empty_db\<lparr>users := [''alice'' \<mapsto> new_user, ''bob'' \<mapsto> new_user]\<rparr>"

definition succeeded_for :: "string \<Rightarrow> int \<Rightarrow> payment_intent option" where
  "succeeded_for uid cents =
     Some \<lparr>pi_status = ''succeeded'', pi_metadata_userId = uid, pi_amount = cents\<rparr>"

definition deposits :: "request list" where
  "deposits =
     [ConfirmFunds ''alice'' ''pi_1'' (succeeded_for ''alice'' 5000),
      ConfirmFunds ''bob'' ''pi_2'' (succeeded_for ''bob'' 5000)]"

definition duel_started :: "request list" where
  "duel_started = deposits @
     [CreateChallenge (Some ''alice'') ''DUEL01'' Friend 10 (Some 25) ''alice'' None,
      Join (Some ''bob'') ''bob'' ''DUEL01'',
      Ready ''alice'' ''DUEL01'',
      Ready ''bob'' ''DUEL01'']"

definition duel :: "request list" where
  "duel = duel_started @ [Fail (Some ''bob'') ''bob'' ''DUEL01'']"


text \<open>Alice opens a solo session and completes it.\<close>

definition solo_done :: "request list" where
  "solo_done =
     [CreateChallenge (Some ''alice'') ''SOLO01'' Solo 20 (Some 25) ''alice'' None,
      Complete (Some ''alice'') ''alice'' ''SOLO01'']"

text \<open>Alice opens a royale and joins it a second time.\<close>

definition royale_rejoin :: "request list" where
  "royale_rejoin = deposits @
     [CreateChallenge (Some ''alice'') ''ROYAL2'' Royale 10 None ''alice'' None,
      Join (Some ''alice'') ''alice'' ''ROYAL2'']"


text \<open>On the statistics-only server: a royale of two that has started.\<close>

definition index_royale :: "request list" where
  "index_royale =
     [CreateChallenge None ''ROYAL1'' Royale 10 None ''u1'' None,
      Join None ''u2'' ''ROYAL1'',
      Ready ''u1'' ''ROYAL1'',
      Ready ''u2'' ''ROYAL1'']"







subsection \<open>The specification's formulas\<close>

text \<open>
  The settlement rules as the specification words them, in integers: \<open>round_pct x pct\<close>
  is \<open>x \<times> pct / 100\<close> rounded to the nearest integer, a half going up.
\<close>

definition round_pct :: "int \<Rightarrow> int \<Rightarrow> int" where
  "round_pct x pct = (x * pct + 50) div 100"

definition spec_feePct :: "int \<Rightarrow> int" where
  "spec_feePct stakeAmount = (if stakeAmount \<ge> 10000 then 15 else 10)"

definition spec_bonusPct :: "int \<Rightarrow> int" where
  "spec_bonusPct streak =
     (if streak \<ge> 7 then 10 else if streak \<ge> 5 then 7 else if streak \<ge> 3 then 5 else 0)"

text \<open>\<open>totalWinnings = round(round(totalPot \<times> (100 \<minus> feePct) / 100) \<times> (1 + bonusPct))\<close>\<close>

definition spec_totalWinnings :: "int \<Rightarrow> nat \<Rightarrow> int \<Rightarrow> int" where
  "spec_totalWinnings stakeAmount rosterSize streak =
     round_pct (round_pct (stakeAmount * int rosterSize) (100 - spec_feePct stakeAmount))
       (100 + spec_bonusPct streak)"

text \<open>\<open>perSurvivor = floor(round(stakeAmount \<times> failedCount \<times> (100 \<minus> feePct) / 100) / survivorCount)\<close>\<close>

definition spec_perSurvivor :: "int \<Rightarrow> nat \<Rightarrow> nat \<Rightarrow> int" where
  "spec_perSurvivor stakeAmount failedCount survivorCount =
     round_pct (stakeAmount * int failedCount) (100 - spec_feePct stakeAmount)
       div int survivorCount"

text \<open>The \<^verbatim>\<open>win\<close> row a group settlement writes for one survivor.\<close>

definition win_of :: "string \<Rightarrow> int \<Rightarrow> player \<Rightarrow> transaction" where
  "win_of cid refund p =
     \<lparr>tx_user_id = user_id p, tx_type = Win, amount = refund,
      description = ''Group challenge winnings'', tx_challenge_id = Some cid,
      stripe_payment_id = None\<rparr>"

section \<open>Properties\<close>

subsection \<open>The tables after each statement\<close>

lemma update_user_simps:
  "users (update_user s uid f) = (case users s uid of None \<Rightarrow> users s | Some u \<Rightarrow> (users s)(uid \<mapsto> f u))"
  "transactions (update_user s uid f) = transactions s"
  "challenges (update_user s uid f) = challenges s"
  "challenge_players (update_user s uid f) = challenge_players s"
  by (simp_all add: update_user_def split: option.split)

lemma update_challenge_simps:
  "users (update_challenge s cid f) = users s"
  "transactions (update_challenge s cid f) = transactions s"
  "challenges (update_challenge s cid f) = (case challenges s cid of None \<Rightarrow> challenges s | Some c \<Rightarrow> (challenges s)(cid \<mapsto> f c))"
  "challenge_players (update_challenge s cid f) = challenge_players s"
  by (simp_all add: update_challenge_def split: option.split)

lemma update_players_simps:
  "users (update_players s cid uid f) = users s"
  "transactions (update_players s cid uid f) = transactions s"
  "challenges (update_players s cid uid f) = challenges s"
  "challenge_players (update_players s cid uid f) =
     map (\<lambda>p. if challenge_id p = cid \<and> user_id p = uid then f p else p) (challenge_players s)"
  by (simp_all add: update_players_def)

lemma insert_transaction_simps:
  "users (insert_transaction s t) = users s"
  "transactions (insert_transaction s t) = transactions s @ [t]"
  "challenges (insert_transaction s t) = challenges s"
  "challenge_players (insert_transaction s t) = challenge_players s"
  by (simp_all add: insert_transaction_def)

lemma insert_player_simps:
  "users (insert_player s cid uid) = users s"
  "transactions (insert_player s cid uid) = transactions s"
  "challenges (insert_player s cid uid) = challenges s"
  "challenge_players (insert_player s cid uid) = challenge_players s @
         [\<lparr>challenge_id = cid, user_id = uid, paid = True, ready = False, failed = False,
           completed = False\<rparr>]"
  by (simp_all add: insert_player_def)

lemmas table_simps = update_user_simps update_challenge_simps update_players_simps
  insert_transaction_simps insert_player_simps

subsection \<open>Rounding in integers\<close>

lemma js_round_div100: "js_round (of_int n / 100) = (n + 50) div 100"
proof -
  have "(of_int n :: rat) / 100 + 1 / 2 = of_int (n + 50) / of_int 100"
    by (simp add: field_simps)
  then have "js_round (of_int n / 100) = \<lfloor>(of_int (n + 50) :: rat) / of_int 100\<rfloor>"
    unfolding js_round_def by (rule arg_cong)
  also have "\<dots> = (n + 50) div 100"
    by (rule floor_divide_of_int_eq)
  finally show ?thesis .
qed

subsection \<open>C6: the platform fee\<close>

text \<open>
  C6. For a stake in cents the fee percentage is 15 when the stake is at least
  10000 cents and 10 otherwise; a stake of 9900 cents pays 10 percent and a stake of
  10000 cents pays 15 percent.
\<close>

theorem C6_platform_fee:
  "getPlatformFee stake = (if stake \<ge> 10000 then 15 else 10)
   \<and> getPlatformFee 9900 = 10 \<and> getPlatformFee 10000 = 15"
  by (simp add: getPlatformFee_def Let_def)

lemma getPlatformFee_spec: "getPlatformFee stake = spec_feePct stake"
  by (simp add: getPlatformFee_def spec_feePct_def Let_def)

lemma getStreakBonus_spec: "1 + getStreakBonus streak = of_int (100 + spec_bonusPct streak) / 100"
  by (simp add: getStreakBonus_def spec_bonusPct_def)

lemma js_round_pct: "js_round (of_int (x * pct) / 100) = round_pct x pct"
  by (simp only: js_round_div100 round_pct_def)

lemma js_round_times: "js_round (of_int x * (of_int pct / 100)) = round_pct x pct"
  using js_round_pct [of x pct] by simp

lemma totalWinnings_spec:
  "js_round (of_int (js_round (of_int (stake * int n * (100 - getPlatformFee stake)) / 100))
      * (1 + getStreakBonus streak)) = spec_totalWinnings stake n streak"
  by (simp only: getPlatformFee_spec getStreakBonus_spec js_round_pct js_round_times
        spec_totalWinnings_def)

lemma endChallengeWithWinner_unfold:
  "endChallengeWithWinner s cid w ch ps =
     (let s1 = update_challenge s cid (\<lambda>c. c\<lparr>status := Completed, winner_id := Some w\<rparr>)
      in case users s1 w of
           None \<Rightarrow> s1
         | Some winner \<Rightarrow>
             (let tw = spec_totalWinnings (stake_amount ch) (length ps) (current_streak winner)
              in insert_transaction
                   (update_user
                      (update_user s1 w (\<lambda>u. u\<lparr>balance := balance u + tw\<rparr>)) w
                      (\<lambda>u. u\<lparr>total_wins := total_wins u + 1,
                             total_sessions := total_sessions u + 1,
                             money_won := money_won u + tw,
                             current_streak := current_streak u + 1,
                             best_streak := max (best_streak u) (current_streak u + 1)\<rparr>))
                   \<lparr>tx_user_id = w, tx_type = Win, amount = tw,
                    description = ''Challenge winnings'',
                    tx_challenge_id = Some cid, stripe_payment_id = None\<rparr>))"
  unfolding endChallengeWithWinner_def Let_def totalWinnings_spec by (rule refl)

subsection \<open>C4: what a single winner is paid\<close>



subsection \<open>C5: what the survivors of a group are paid\<close>


lemma dom_users_update_user: "dom (users (update_user s uid f)) = dom (users s)"
  by (auto simp: update_user_def split: option.splits if_splits)

lemma refund_survivors_transactions:
  "transactions (refund_survivors s cid r ps) =
     transactions s @ map (win_of cid r) (filter (\<lambda>p. user_id p \<in> dom (users s)) ps)"
proof (induction ps arbitrary: s)
  case Nil
  show ?case by simp
next
  case (Cons p ps)
  show ?case
  proof (cases "users s (user_id p)")
    case None
    then show ?thesis by (simp add: Cons.IH domIff)
  next
    case (Some usr)
    then have "user_id p \<in> dom (users s)" by blast
    then show ?thesis
      using Some
      by (simp add: Cons.IH insert_transaction_simps update_user_simps(2)
            dom_users_update_user win_of_def)
  qed
qed

lemma refund_survivors_challenges:
  "challenges (refund_survivors s cid r ps) = challenges s"
  "challenge_players (refund_survivors s cid r ps) = challenge_players s"
  by (induction ps arbitrary: s) (simp_all add: table_simps split: option.split)

lemma endGroupChallenge_unfold:
  "endGroupChallenge s cid ch ps =
     (let survivors = filter (\<lambda>p. completed p \<and> \<not> failed p) ps
      in if survivors = []
         then update_challenge s cid (\<lambda>c. c\<lparr>status := Completed\<rparr>)
         else update_challenge
                (refund_survivors s cid
                   (stake_amount ch + spec_perSurvivor (stake_amount ch)
                       (length (filter failed ps)) (length survivors)) survivors)
                cid (\<lambda>c. c\<lparr>status := Completed\<rparr>))"
proof -
  have "js_round (of_int (int (length (filter failed ps)) * stake_amount ch *
           (100 - getPlatformFee (stake_amount ch))) / 100)
        = round_pct (stake_amount ch * int (length (filter failed ps)))
            (100 - spec_feePct (stake_amount ch))"
    by (simp only: getPlatformFee_spec js_round_pct mult.commute)
  then show ?thesis
    unfolding endGroupChallenge_def Let_def spec_perSurvivor_def length_0_conv
    by (simp only:)
qed




subsection \<open>The transaction log only grows\<close>

lemma keep_simps: "keep s (Inl e) = s" "keep s (Inr s') = s'"
  by (simp_all add: keep_def)

lemma record_loss_simps:
  "challenges (record_loss s cid uid ch) = challenges s"
  "challenge_players (record_loss s cid uid ch) = challenge_players s"
  "transactions (record_loss s cid uid ch) =
     transactions s @
       (case users s uid of
          None \<Rightarrow> []
        | Some u \<Rightarrow> [\<lparr>tx_user_id = uid, tx_type = Loss, amount = - stake_amount ch,
                      description = ''Lost stake'', tx_challenge_id = Some cid,
                      stripe_payment_id = None\<rparr>])"
  "users (record_loss s cid uid ch) =
     (case users s uid of
        None \<Rightarrow> users s
      | Some u \<Rightarrow> (users s)(uid \<mapsto> u\<lparr>money_lost := money_lost u + stake_amount ch,
                                       current_streak := 0\<rparr>))"
  by (simp_all add: record_loss_def table_simps split: option.split)

lemma endChallengeWithWinner_challenges:
  "challenges (endChallengeWithWinner s cid w ch ps) =
     (case challenges s cid of
        None \<Rightarrow> challenges s
      | Some c \<Rightarrow> (challenges s)(cid \<mapsto> c\<lparr>status := Completed, winner_id := Some w\<rparr>))"
  by (simp add: endChallengeWithWinner_unfold Let_def table_simps split: option.split)

lemma endChallengeWithWinner_transactions:
  "\<exists>ts. transactions (endChallengeWithWinner s cid w ch ps) = transactions s @ ts"
  by (simp add: endChallengeWithWinner_unfold Let_def table_simps split: option.split)

lemma endGroupChallenge_challenges:
  "challenges (endGroupChallenge s cid ch ps) =
     (case challenges s cid of
        None \<Rightarrow> challenges s
      | Some c \<Rightarrow> (challenges s)(cid \<mapsto> c\<lparr>status := Completed\<rparr>))"
  by (simp add: endGroupChallenge_unfold Let_def table_simps refund_survivors_challenges
        split: option.split)

lemma endGroupChallenge_transactions:
  "\<exists>ts. transactions (endGroupChallenge s cid ch ps) = transactions s @ ts"
  by (simp add: endGroupChallenge_unfold Let_def table_simps refund_survivors_transactions)

lemma create_challenge_transactions:
  "\<exists>ts. transactions (keep s (create_challenge s auth newId type stake duration creatorId maxPlayers))
     = transactions s @ ts"
  by (simp add: create_challenge_def Let_def keep_simps table_simps split: option.split)

lemma join_transactions:
  "\<exists>ts. transactions (keep s (join s auth userId cid)) = transactions s @ ts"
  by (simp add: join_def Let_def keep_simps table_simps split: option.split)

lemma mark_ready_transactions: "transactions (mark_ready s userId cid) = transactions s"
  by (simp add: mark_ready_def Let_def table_simps)

lemma fail_transactions:
  "\<exists>ts. transactions (keep s (fail s auth userId cid)) = transactions s @ ts"
proof (cases "challenges s cid")
  case None
  then show ?thesis by (simp add: fail_def keep_simps)
next
  case (Some ch)
  define s2 where "s2 = record_loss (update_players s cid (final_user_id auth userId)
     (\<lambda>p. p\<lparr>failed := True\<rparr>)) cid (final_user_id auth userId) ch"
  obtain ts where ts: "transactions s2 = transactions s @ ts"
    by (simp add: s2_def record_loss_simps table_simps)
  have "keep s (fail s auth userId cid) = s2 \<or>
        (\<exists>w ps. keep s (fail s auth userId cid) = endChallengeWithWinner s2 cid w ch ps)"
    using Some by (auto simp: fail_def Let_def keep_simps s2_def)
  then show ?thesis
    using ts endChallengeWithWinner_transactions [of s2 cid _ ch] by (metis append.assoc)
qed

lemma complete_transactions:
  "\<exists>ts. transactions (keep s (complete s auth userId cid)) = transactions s @ ts"
proof (cases "challenges s cid")
  case None
  then show ?thesis by (simp add: complete_def keep_simps)
next
  case (Some ch)
  define s1 where "s1 = update_players s cid (final_user_id auth userId) (\<lambda>p. p\<lparr>completed := True\<rparr>)"
  have t1: "transactions s1 = transactions s" by (simp add: s1_def table_simps)
  have "transactions (keep s (complete s auth userId cid)) = transactions s1 \<or>
        (\<exists>ps. keep s (complete s auth userId cid) = endGroupChallenge s1 cid ch ps)"
    using Some by (auto simp: complete_def Let_def keep_simps s1_def table_simps)
  then show ?thesis
    using t1 endGroupChallenge_transactions [of s1 cid ch] by (metis append_Nil2)
qed

lemma confirm_funds_transactions:
  "\<exists>ts. transactions (handle s (ConfirmFunds userId pid retrieved)) = transactions s @ ts"
  by (simp add: confirm_funds_def Let_def table_simps split: option.split)

lemma add_funds_transactions:
  "transactions (snd (add_funds s userId dollars customer intent)) = transactions s"
  by (simp add: add_funds_def Let_def table_simps split: option.split)

lemma withdraw_transactions:
  "\<exists>ts. transactions (keep s (withdraw s userId dollars transfer)) = transactions s @ ts"
  by (simp add: withdraw_def Let_def keep_simps table_simps split: option.split)

lemma setup_withdraw_transactions:
  "transactions (snd (setup_withdraw s userId account link)) = transactions s"
  by (simp add: setup_withdraw_def Let_def table_simps split: option.split)

lemma handle_appends: "\<exists>ts. transactions (handle s r) = transactions s @ ts"
proof (cases r)
  case (CreateChallenge auth newId type stake duration creatorId maxPlayers)
  then show ?thesis using create_challenge_transactions by simp
next
  case (Join auth userId cid)
  then show ?thesis using join_transactions by simp
next
  case (Ready userId cid)
  then show ?thesis by (simp add: mark_ready_transactions)
next
  case (Fail auth userId cid)
  then show ?thesis using fail_transactions by simp
next
  case (Complete auth userId cid)
  then show ?thesis using complete_transactions by simp
next
  case (ConfirmFunds userId pid retrieved)
  then show ?thesis using confirm_funds_transactions by simp
next
  case (AddFunds userId dollars customer intent)
  then show ?thesis by (simp add: add_funds_transactions)
next
  case (Withdraw userId dollars transfer)
  then show ?thesis using withdraw_transactions by simp
next
  case (SetupWithdraw userId account link)
  then show ?thesis by (simp add: setup_withdraw_transactions)
next
  case (AccountUpdated account_id charges_enabled payouts_enabled)
  then show ?thesis by (simp add: account_updated_def)
qed

lemma run_appends: "\<exists>ts. transactions (run s rs) = transactions s @ ts"
proof (induction rs arbitrary: s)
  case Nil
  show ?case by (simp add: run_def)
next
  case (Cons r rs)
  obtain t1 where t1: "transactions (handle s r) = transactions s @ t1"
    using handle_appends by blast
  obtain t2 where "transactions (run (handle s r) rs) = transactions (handle s r) @ t2"
    using Cons.IH by blast
  with t1 show ?case by (simp add: run_def)
qed

subsection \<open>C7: a deposit is confirmed once\<close>

lemma confirm_funds_known:
  assumes "list_ex (\<lambda>t. stripe_payment_id t = Some pid) (transactions s)"
  shows "handle s (ConfirmFunds userId pid retrieved) = s"
  using assms by (simp add: confirm_funds_def split: option.split)

lemma list_ex_append_left: "list_ex P xs \<Longrightarrow> list_ex P (xs @ ys)"
  by (auto simp: list_ex_iff)

lemma run_snoc: "run s (rs @ [r]) = handle (run s rs) r"
  by (simp add: run_def)

text \<open>
  C7. Once \<open>confirm_funds\<close> has credited a payment intent (the balance of the user goes
  up by the intent's amount and one \<^verbatim>\<open>deposit\<close> row with that reference is appended, no
  other user changes), every later confirmation of the same reference, by whichever
  user, after whatever other requests and whatever Stripe answers, leaves the database
  as it is.
\<close>

theorem C7_confirm_funds_once:
  assumes "confirm_funds s userId pid retrieved = Inr (NewBalance b, s1)"
  shows "\<exists>paymentIntent. retrieved = Some paymentIntent
     \<and> balance_of s1 userId = map_option (\<lambda>x. x + pi_amount paymentIntent) (balance_of s userId)
     \<and> balance_of s1 userId = Some b
     \<and> (\<forall>u. u \<noteq> userId \<longrightarrow> users s1 u = users s u)
     \<and> transactions s1 = transactions s @
          [\<lparr>tx_user_id = userId, tx_type = Deposit, amount = pi_amount paymentIntent,
            description = ''Added funds'', tx_challenge_id = None,
            stripe_payment_id = Some pid\<rparr>]
     \<and> (\<forall>rs u again. handle (run s1 rs) (ConfirmFunds u pid again) = run s1 rs)"
proof -
  from assms obtain usr paymentIntent where
    u: "users s userId = Some usr" and r: "retrieved = Some paymentIntent"
    by (auto simp: confirm_funds_def split: option.splits if_splits)
  from assms u r have s1: "s1 = insert_transaction
        (update_user s userId (\<lambda>u. u\<lparr>balance := balance u + pi_amount paymentIntent\<rparr>))
        \<lparr>tx_user_id = userId, tx_type = Deposit, amount = pi_amount paymentIntent,
         description = ''Added funds'', tx_challenge_id = None,
         stripe_payment_id = Some pid\<rparr>"
    and b: "b = (case users s1 userId of None \<Rightarrow> 0 | Some u \<Rightarrow> balance u)"
    by (auto simp: confirm_funds_def Let_def split: if_splits)
  have known: "list_ex (\<lambda>t. stripe_payment_id t = Some pid) (transactions s1)"
    by (simp add: s1 table_simps)
  have later: "handle (run s1 rs) (ConfirmFunds u pid again) = run s1 rs" for rs u again
  proof -
    obtain ts where "transactions (run s1 rs) = transactions s1 @ ts"
      using run_appends by blast
    with known have "list_ex (\<lambda>t. stripe_payment_id t = Some pid) (transactions (run s1 rs))"
      by (simp add: list_ex_append_left)
    then show ?thesis by (rule confirm_funds_known)
  qed
  show ?thesis
    using u r b later by (simp add: s1 table_simps balance_of_def)
qed

theorem C7_witness:
  "balance_of signed_up ''alice'' = Some 0
   \<and> balance_of (run signed_up [ConfirmFunds ''alice'' ''pi_1'' (succeeded_for ''alice'' 5000)]) ''alice''
       = Some 5000
   \<and> balance_of (run signed_up
        [ConfirmFunds ''alice'' ''pi_1'' (succeeded_for ''alice'' 5000),
         ConfirmFunds ''alice'' ''pi_1'' (succeeded_for ''alice'' 5000),
         ConfirmFunds ''alice'' ''pi_1'' (succeeded_for ''alice'' 5000)]) ''alice'' = Some 5000
   \<and> length (transactions (run signed_up
        [ConfirmFunds ''alice'' ''pi_1'' (succeeded_for ''alice'' 5000),
         ConfirmFunds ''alice'' ''pi_1'' (succeeded_for ''alice'' 5000),
         ConfirmFunds ''alice'' ''pi_1'' (succeeded_for ''alice'' 5000)])) = 1"
proof -
  let ?c = "ConfirmFunds ''alice'' ''pi_1'' (succeeded_for ''alice'' 5000)"
  define s1 where "s1 = run signed_up [?c]"
  have first: "confirm_funds signed_up ''alice'' ''pi_1'' (succeeded_for ''alice'' 5000)
      = Inr (NewBalance 5000, s1)"
    by (simp add: s1_def run_def confirm_funds_def signed_up_def succeeded_for_def empty_db_def
          new_user_def Let_def table_simps)
  have b0: "balance_of signed_up ''alice'' = Some 0"
    by (simp add: balance_of_def signed_up_def new_user_def)
  from C7_confirm_funds_once [OF first]
  have b1: "balance_of s1 ''alice'' = Some 5000"
    and t1: "length (transactions s1) = Suc (length (transactions signed_up))"
    and again: "\<And>rs u r. handle (run s1 rs) (ConfirmFunds u ''pi_1'' r) = run s1 rs"
    by auto
  have two: "run signed_up [?c, ?c] = s1"
    using again [of "[]"] by (simp add: run_def s1_def)
  have three: "run signed_up [?c, ?c, ?c] = s1"
    using again [of "[?c]"] two by (simp add: run_def s1_def)
  have t0: "transactions signed_up = []"
    by (simp add: signed_up_def empty_db_def)
  show ?thesis
    using b0 b1 t1 t0 unfolding three s1_def by simp
qed

subsection \<open>C10: the bounds of the wallet\<close>



subsection \<open>C1: the balance against the transaction log\<close>

lemma drift_same:
  assumes "map_option balance (users s' u) = map_option balance (users s u)"
    and "transactions s' = transactions s"
  shows "drift s' u = drift s u"
  using assms by (auto simp: drift_def ledger_sum_def split: option.splits)

lemma drift_paired:
  assumes "users s uid = Some usr"
  shows "drift (insert_transaction (update_user s uid (\<lambda>u. u\<lparr>balance := balance u + x\<rparr>))
           \<lparr>tx_user_id = uid, tx_type = ty, amount = x, description = d,
            tx_challenge_id = c, stripe_payment_id = p\<rparr>) u = drift s u"
  using assms by (simp add: drift_def ledger_sum_def table_simps)

lemma drift_paired_minus:
  assumes "users s uid = Some usr"
  shows "drift (insert_transaction (update_user s uid (\<lambda>u. u\<lparr>balance := balance u - x\<rparr>))
           \<lparr>tx_user_id = uid, tx_type = ty, amount = - x, description = d,
            tx_challenge_id = c, stripe_payment_id = p\<rparr>) u = drift s u"
  using assms by (simp add: drift_def ledger_sum_def table_simps)

lemma drift_insert_player: "drift (insert_player s cid uid) u = drift s u"
  by (rule drift_same) (simp_all add: table_simps)

lemma drift_update_players: "drift (update_players s cid uid f) u = drift s u"
  by (rule drift_same) (simp_all add: table_simps)

lemma drift_update_challenge: "drift (update_challenge s cid f) u = drift s u"
  by (rule drift_same) (simp_all add: table_simps)

lemma drift_challenges_update: "drift (s\<lparr>challenges := cs\<rparr>) u = drift s u"
  by (rule drift_same) simp_all

lemma drift_update_user_stats:
  assumes "\<And>usr. balance (f usr) = balance usr"
  shows "drift (update_user s uid f) u = drift s u"
  by (rule drift_same) (simp_all add: table_simps assms split: option.split)

lemmas drift_simps = drift_paired drift_paired_minus drift_insert_player drift_update_players
  drift_update_challenge drift_challenges_update

lemma drift_create:
  "drift (keep s (create_challenge s auth newId type stake duration creatorId maxPlayers)) u
     = drift s u"
proof -
  have *: "users (insert_player (s\<lparr>challenges := cs\<rparr>) newId x) k = users s k" for cs x k
    by (simp add: table_simps)
  show ?thesis
    by (auto simp: create_challenge_def Let_def keep_simps req_user_def final_user_id_def
          drift_simps * split: option.splits)
qed

lemma drift_join: "drift (keep s (join s auth userId cid)) u = drift s u"
  by (auto simp: join_def Let_def keep_simps req_user_def final_user_id_def drift_simps
        split: option.splits)

lemma drift_mark_ready: "drift (mark_ready s userId cid) u = drift s u"
  by (simp add: mark_ready_def Let_def drift_simps)

lemma drift_refund_survivors: "drift (refund_survivors s cid r ps) u = drift s u"
  by (induction ps arbitrary: s) (auto simp: drift_simps split: option.splits)

lemma drift_endGroupChallenge: "drift (endGroupChallenge s cid ch ps) u = drift s u"
  by (simp add: endGroupChallenge_unfold Let_def drift_simps drift_refund_survivors)

lemma drift_endChallengeWithWinner: "drift (endChallengeWithWinner s cid w ch ps) u = drift s u"
  by (simp add: endChallengeWithWinner_unfold Let_def drift_def ledger_sum_def table_simps
        split: option.split)

lemma drift_complete: "drift (keep s (complete s auth userId cid)) u = drift s u"
  by (auto simp: complete_def Let_def keep_simps drift_simps drift_endGroupChallenge
        drift_update_user_stats split: option.splits)

lemma drift_confirm: "drift (handle s (ConfirmFunds userId pid retrieved)) u = drift s u"
  by (auto simp: confirm_funds_def Let_def drift_simps split: option.splits)

lemma drift_add_funds: "drift (snd (add_funds s userId dollars customer intent)) u = drift s u"
  by (auto simp: add_funds_def Let_def drift_update_user_stats split: option.splits)

lemma drift_withdraw: "drift (keep s (withdraw s userId amt transfer)) u = drift s u"
  by (auto simp: withdraw_def Let_def keep_simps drift_simps split: option.splits)

lemma drift_setup: "drift (snd (setup_withdraw s userId account link)) u = drift s u"
  by (auto simp: setup_withdraw_def Let_def drift_update_user_stats split: option.splits)

lemma drift_account_updated: "drift (account_updated s a c p) u = drift s u"
  by (rule drift_same) (auto simp: account_updated_def option.map_comp comp_def
      intro!: option.map_cong)

lemma drift_record_loss:
  "drift (record_loss s cid uid ch) u =
     drift s u + (if u = uid \<and> users s uid \<noteq> None then stake_amount ch else 0)"
  by (auto simp: record_loss_def drift_def ledger_sum_def table_simps split: option.splits)

text \<open>
  Every handler of the wallet server that writes a transaction changes the balance by
  the same amount, but one: for every user, a request leaves the distance between the
  balance and the signed sum of the transactions as it was, unless it is a fail
  request, which moves it by the stake for the user who reports the failure.
\<close>

theorem ledger_drift:
  "drift (handle s r) u = drift s u +
     (case r of
        Fail auth userId cid \<Rightarrow>
          (case challenges s cid of
             None \<Rightarrow> 0
           | Some ch \<Rightarrow>
               if u = final_user_id auth userId \<and> users s u \<noteq> None
               then stake_amount ch else 0)
      | _ \<Rightarrow> 0)"
proof (cases r)
  case (Fail auth userId cid)
  show ?thesis
  proof (cases "challenges s cid")
    case None
    then show ?thesis using Fail by (simp add: fail_def keep_simps)
  next
    case (Some ch)
    have "drift (keep s (fail s auth userId cid)) u =
        drift (record_loss (update_players s cid (final_user_id auth userId)
                 (\<lambda>p. p\<lparr>failed := True\<rparr>)) cid (final_user_id auth userId) ch) u"
      using Some by (simp add: fail_def Let_def keep_simps drift_endChallengeWithWinner)
    then show ?thesis
      using Fail Some by (auto simp: drift_record_loss drift_update_players table_simps)
  qed
qed (simp_all add: drift_create drift_join drift_mark_ready drift_complete
      drift_confirm [simplified] drift_add_funds drift_withdraw drift_setup
      drift_account_updated)

text \<open>
  C1. In the duel of Alice and Bob, Bob's balance equals the signed sum of his
  transactions (4000 cents) once the duel has started. His failure then appends a
  \<^verbatim>\<open>loss\<close> row of \<open>\<minus>1000\<close> and leaves his balance alone: the balance is still 4000,
  the sum of his rows 3000.
\<close>

theorem C1_fail_breaks_reconciliation:
  "balance_of (run signed_up duel_started) ''bob'' = Some 4000
   \<and> ledger_sum (run signed_up duel_started) ''bob'' = 4000
   \<and> balance_of (run signed_up duel) ''bob'' = Some 4000
   \<and> ledger_sum (run signed_up duel) ''bob'' = 3000"
  by code_simp

subsection \<open>C8 and C9: joining\<close>

text \<open>
  C8. On the statistics-only server a royale of two has started (its status is
  \<^verbatim>\<open>active\<close>); a third user joins all the same and is added to the roster.
\<close>

theorem C8_index_join_ignores_status:
  "status_of (index_run empty_db index_royale) ''ROYAL1'' = Some Active
   \<and> map user_id (players_of (index_run empty_db index_royale) ''ROYAL1'') = [''u1'', ''u2'']
   \<and> \<not> isl (index_join (index_run empty_db index_royale) ''u3'' ''ROYAL1'')
   \<and> map user_id
         (players_of (index_run empty_db (index_royale @ [Join None ''u3'' ''ROYAL1''])) ''ROYAL1'')
       = [''u1'', ''u2'', ''u3'']"
  by code_simp

text \<open>
  C9. On the wallet server Alice, who opened a royale and is on its roster, joins it
  again: she is on the roster twice and her stake is taken a second time.
\<close>

theorem C9_wallet_join_twice:
  "balance_of (run signed_up (butlast royale_rejoin)) ''alice'' = Some 4000
   \<and> map user_id (players_of (run signed_up (butlast royale_rejoin)) ''ROYAL2'') = [''alice'']
   \<and> balance_of (run signed_up royale_rejoin) ''alice'' = Some 3000
   \<and> map user_id (players_of (run signed_up royale_rejoin) ''ROYAL2'') = [''alice'', ''alice'']"
  by code_simp

subsection \<open>C2: settling a challenge again\<close>













subsection \<open>C3: how the status of a challenge moves\<close>

lemma create_challenge_Inr:
  assumes "create_challenge s auth newId type stake duration creatorId maxPlayers = Inr s'"
  shows "challenges s newId = None \<and> (\<exists>c. challenges s' = (challenges s)(newId \<mapsto> c))"
  using assms
  by (auto simp: create_challenge_def Let_def table_simps split: option.splits if_splits)

lemma create_challenge_challenges:
  "challenges (keep s (create_challenge s auth newId type stake duration creatorId maxPlayers))
     = challenges s
   \<or> (\<exists>c. challenges s newId = None \<and>
        challenges (keep s (create_challenge s auth newId type stake duration creatorId maxPlayers))
          = (challenges s)(newId \<mapsto> c))"
  by (cases "create_challenge s auth newId type stake duration creatorId maxPlayers")
     (auto simp: keep_simps dest: create_challenge_Inr)

lemma join_challenges: "challenges (keep s (join s auth userId cid)) = challenges s"
  by (simp add: join_def Let_def keep_simps table_simps split: option.split)

lemma mark_ready_challenges:
  "challenges (mark_ready s userId cid) = challenges s
   \<or> (\<exists>c c'. challenges s cid = Some c \<and>
        challenges (mark_ready s userId cid) = (challenges s)(cid \<mapsto> c') \<and>
        status c' = Active \<and> winner_id c' = winner_id c)"
  by (auto simp: mark_ready_def Let_def table_simps split: option.split)

lemma fail_challenges:
  "challenges (keep s (fail s auth userId cid)) = challenges s
   \<or> (\<exists>c c'. challenges s cid = Some c \<and>
        challenges (keep s (fail s auth userId cid)) = (challenges s)(cid \<mapsto> c') \<and>
        status c' = Completed)"
  by (auto simp: fail_def Let_def keep_simps table_simps record_loss_simps
        endChallengeWithWinner_challenges split: option.split)

lemma complete_challenges:
  "challenges (keep s (complete s auth userId cid)) = challenges s
   \<or> (\<exists>c c'. challenges s cid = Some c \<and>
        challenges (keep s (complete s auth userId cid)) = (challenges s)(cid \<mapsto> c') \<and>
        status c' = Completed)"
  by (auto simp: complete_def Let_def keep_simps table_simps endGroupChallenge_challenges
        split: option.split)

lemma wallet_challenges:
  "challenges (handle s (ConfirmFunds userId pid retrieved)) = challenges s"
  "challenges (handle s (AddFunds userId dollars customer intent)) = challenges s"
  "challenges (handle s (Withdraw userId amt transfer)) = challenges s"
  "challenges (handle s (SetupWithdraw userId account link)) = challenges s"
  "challenges (handle s (AccountUpdated account_id charges payouts)) = challenges s"
  by (simp_all add: confirm_funds_def add_funds_def withdraw_def setup_withdraw_def
        account_updated_def Let_def keep_def table_simps split: option.split)

lemma handle_challenges:
  "challenges (handle s r) = challenges s
   \<or> (\<exists>k c. challenges s k = None \<and> challenges (handle s r) = (challenges s)(k \<mapsto> c))
   \<or> (\<exists>k c c'. readies r k \<and> challenges s k = Some c \<and>
         challenges (handle s r) = (challenges s)(k \<mapsto> c') \<and>
         status c' = Active \<and> winner_id c' = winner_id c)
   \<or> (\<exists>k c c'. ends r k \<and> challenges s k = Some c \<and>
         challenges (handle s r) = (challenges s)(k \<mapsto> c') \<and> status c' = Completed)"
proof (cases r)
  case (CreateChallenge auth newId type stake duration creatorId maxPlayers)
  then show ?thesis
    using create_challenge_challenges [of s auth newId type stake duration creatorId maxPlayers]
    by auto
next
  case (Join auth userId cid)
  then show ?thesis by (simp add: join_challenges)
next
  case (Ready userId cid)
  then show ?thesis using mark_ready_challenges [of s userId cid] by auto
next
  case (Fail auth userId cid)
  then show ?thesis using fail_challenges [of s auth userId cid] by auto
next
  case (Complete auth userId cid)
  then show ?thesis using complete_challenges [of s auth userId cid] by auto
qed (simp_all only: wallet_challenges simp_thms)

lemma update_each_challenges: "challenges (update_each s f ps) = challenges s"
  by (induction ps arbitrary: s) (simp_all add: table_simps)

lemma getOrCreateUser_challenges: "challenges (getOrCreateUser s u) = challenges s"
  by (simp add: getOrCreateUser_def split: option.split)

lemma index_create_challenges:
  "challenges (snd (index_create s newId type stake duration creatorId maxPlayers)) = challenges s
   \<or> (\<exists>c. challenges s newId = None \<and>
        challenges (snd (index_create s newId type stake duration creatorId maxPlayers))
          = (challenges s)(newId \<mapsto> c))"
  by (auto simp: index_create_def Let_def table_simps getOrCreateUser_challenges)

lemma index_join_challenges: "challenges (keep s (index_join s userId cid)) = challenges s"
  by (simp add: index_join_def Let_def keep_simps table_simps getOrCreateUser_challenges
        split: option.split)

lemma index_ready_challenges:
  "challenges (snd (index_ready s userId cid)) = challenges s
   \<or> (\<exists>c c'. challenges s cid = Some c \<and>
        challenges (snd (index_ready s userId cid)) = (challenges s)(cid \<mapsto> c') \<and>
        status c' = Active \<and> winner_id c' = winner_id c)"
  by (auto simp: index_ready_def Let_def table_simps split: option.split)

lemma index_fail_challenges:
  "challenges (keep s (index_fail s userId cid)) = challenges s
   \<or> (\<exists>c c'. challenges s cid = Some c \<and>
        challenges (keep s (index_fail s userId cid)) = (challenges s)(cid \<mapsto> c') \<and>
        status c' = Completed)"
  by (auto simp: index_fail_def Let_def keep_simps table_simps split: option.split bool.split)

lemma index_complete_challenges:
  "challenges (keep s (index_complete s userId cid)) = challenges s
   \<or> (\<exists>c c'. challenges s cid = Some c \<and>
        challenges (keep s (index_complete s userId cid)) = (challenges s)(cid \<mapsto> c') \<and>
        status c' = Completed)"
  by (auto simp: index_complete_def Let_def keep_simps table_simps update_each_challenges
        split: option.split)

lemma index_handle_challenges:
  "challenges (index_handle s r) = challenges s
   \<or> (\<exists>k c. challenges s k = None \<and> challenges (index_handle s r) = (challenges s)(k \<mapsto> c))
   \<or> (\<exists>k c c'. readies r k \<and> challenges s k = Some c \<and>
         challenges (index_handle s r) = (challenges s)(k \<mapsto> c') \<and>
         status c' = Active \<and> winner_id c' = winner_id c)
   \<or> (\<exists>k c c'. ends r k \<and> challenges s k = Some c \<and>
         challenges (index_handle s r) = (challenges s)(k \<mapsto> c') \<and> status c' = Completed)"
proof (cases r)
  case (CreateChallenge auth newId type stake duration creatorId maxPlayers)
  then show ?thesis
    using index_create_challenges [of s newId type stake duration creatorId maxPlayers]
    by auto
next
  case (Join auth userId cid)
  then show ?thesis by (simp add: index_join_challenges)
next
  case (Ready userId cid)
  then show ?thesis using index_ready_challenges [of s userId cid] by auto
next
  case (Fail auth userId cid)
  then show ?thesis using index_fail_challenges [of s userId cid] by auto
next
  case (Complete auth userId cid)
  then show ?thesis using index_complete_challenges [of s userId cid] by auto
qed simp_all

text \<open>
  C3, as the code has it. On either server one request moves the status of a challenge
  in two ways only: a ready request for it may set it to \<^verbatim>\<open>active\<close>, and a fail or
  complete request for it may set it to \<^verbatim>\<open>completed\<close>; neither looks at the status
  before, so the status never returns to \<^verbatim>\<open>pending\<close> but can go from \<^verbatim>\<open>completed\<close> back
  to \<^verbatim>\<open>active\<close>, or from \<^verbatim>\<open>pending\<close> straight to \<^verbatim>\<open>completed\<close>. The winner changes only
  in a fail or complete request that leaves the challenge completed, and can change
  more than once.
\<close>

theorem C3_status_moves:
  assumes "challenges s cid = Some ch"
    and "s' = handle s r \<or> s' = index_handle s r"
  shows "\<exists>ch'. challenges s' cid = Some ch'
     \<and> (status ch' = status ch
          \<or> status ch' = Active \<and> readies r cid
          \<or> status ch' = Completed \<and> ends r cid)
     \<and> (winner_id ch' = winner_id ch \<or> status ch' = Completed \<and> ends r cid)"
proof -
  have shape: "challenges s' = challenges s
   \<or> (\<exists>k c. challenges s k = None \<and> challenges s' = (challenges s)(k \<mapsto> c))
   \<or> (\<exists>k c c'. readies r k \<and> challenges s k = Some c \<and>
         challenges s' = (challenges s)(k \<mapsto> c') \<and>
         status c' = Active \<and> winner_id c' = winner_id c)
   \<or> (\<exists>k c c'. ends r k \<and> challenges s k = Some c \<and>
         challenges s' = (challenges s)(k \<mapsto> c') \<and> status c' = Completed)"
    using assms(2) handle_challenges [of s r] index_handle_challenges [of s r] by blast
  then show ?thesis
    using assms(1) by (elim disjE exE conjE) (auto split: if_splits)
qed

text \<open>
  The claim as stated fails: the completed duel becomes active again when Alice reports
  ready, and the winner of a completed solo session changes from Alice to Bob when Bob
  reports completion.
\<close>

theorem C3_counterexample:
  "status_of (run signed_up duel) ''DUEL01'' = Some Completed
   \<and> status_of (run signed_up (duel @ [Ready ''alice'' ''DUEL01''])) ''DUEL01'' = Some Active
   \<and> status_of (run signed_up solo_done) ''SOLO01'' = Some Completed
   \<and> winner_of (run signed_up solo_done) ''SOLO01'' = Some ''alice''
   \<and> winner_of (run signed_up (solo_done @ [Complete (Some ''bob'') ''bob'' ''SOLO01'']))
         ''SOLO01'' = Some ''bob''"
  by code_simp

theorem C3_witness:
  "status_of (run signed_up duel) ''DUEL01'' = Some Completed
   \<and> status_of (run signed_up (duel @ [Fail (Some ''bob'') ''bob'' ''DUEL01''])) ''DUEL01''
       = Some Completed
   \<and> status_of (index_run empty_db index_royale) ''ROYAL1'' = Some Active
   \<and> status_of (index_run empty_db (index_royale @ [Join None ''u3'' ''ROYAL1''])) ''ROYAL1''
       = Some Active"
proof -
  define S where "S = run signed_up duel"
  define ch where "ch = \<lparr>ctype = Friend, creator_id = ''alice'', stake_amount = 1000,
    duration_minutes = Some 25, max_players = 2, status = Completed,
    winner_id = Some ''alice''\<rparr>"
  define r where "r = Fail (Some ''bob'') ''bob'' ''DUEL01''"
  define T where "T = index_run empty_db index_royale"
  define ch2 where "ch2 = \<lparr>ctype = Royale, creator_id = ''u1'', stake_amount = 1000,
    duration_minutes = None, max_players = 5, status = Active, winner_id = None\<rparr>"
  define r2 where "r2 = Join None ''u3'' ''ROYAL1''"
  have h1: "challenges S ''DUEL01'' = Some ch"
    unfolding S_def ch_def by code_simp
  have h2: "handle S r = handle S r \<or> handle S r = index_handle S r"
    by simp
  have g1: "challenges T ''ROYAL1'' = Some ch2"
    unfolding T_def ch2_def by code_simp
  have g2: "index_handle T r2 = handle T r2 \<or> index_handle T r2 = index_handle T r2"
    by simp
  from C3_status_moves [OF h1 h2]
  have a: "status_of (handle S r) ''DUEL01'' = Some Completed"
    by (auto simp: status_of_def r_def ch_def)
  from C3_status_moves [OF g1 g2]
  have b: "status_of (index_handle T r2) ''ROYAL1'' = Some Active"
    by (auto simp: status_of_def r2_def ch2_def)
  have "status_of S ''DUEL01'' = Some Completed"
    using h1 by (simp add: status_of_def ch_def)
  moreover have "status_of T ''ROYAL1'' = Some Active"
    using g1 by (simp add: status_of_def ch2_def)
  ultimately show ?thesis
    using a b unfolding S_def T_def r_def r2_def by (simp add: run_snoc index_run_def)
qed

subsection \<open>The guards of the two join handlers\<close>

text \<open>
  The wallet server rejects a join on a challenge that is not pending or is full, and
  writes nothing; it has no test for a user who is on the roster already. The
  statistics-only server has that test (a member who joins again adds no row), and
  rejects a new user on a full roster; it has no test of the status.
\<close>

theorem join_rejected:
  assumes "challenges s cid = Some ch"
    and "status ch \<noteq> Pending \<or> int (length (players_of s cid)) \<ge> max_players ch"
  shows "(\<exists>msg. join s auth userId cid = Inl (HttpError 400 msg))
     \<and> handle s (Join auth userId cid) = s"
  using assms by (auto simp: join_def Let_def keep_def)

theorem index_join_member:
  assumes "challenges s cid = Some ch"
    and "find (\<lambda>p. user_id p = userId) (players_of s cid) = Some p"
  shows "\<exists>s'. index_join s userId cid = Inr s'
     \<and> map user_id (challenge_players s') = map user_id (challenge_players s)
     \<and> map challenge_id (challenge_players s') = map challenge_id (challenge_players s)
     \<and> users s' = users s \<and> transactions s' = transactions s"
  using assms by (auto simp: index_join_def Let_def table_simps comp_def)

lemma index_join_full:
  assumes "challenges s cid = Some ch"
    and "find (\<lambda>p. user_id p = userId) (players_of s cid) = None"
    and "int (length (players_of s cid)) \<ge> max_players ch"
  shows "index_join s userId cid = Inl (HttpError 400 ''Challenge is full'')"
  using assms by (simp add: index_join_def Let_def)

theorem join_rejected_witness:
  "status_of (run signed_up duel) ''DUEL01'' = Some Completed
   \<and> isl (join (run signed_up duel) (Some ''alice'') ''alice'' ''DUEL01'')
   \<and> run signed_up (duel @ [Join (Some ''alice'') ''alice'' ''DUEL01'']) = run signed_up duel"
proof -
  define S where "S = run signed_up duel"
  define ch where "ch = \<lparr>ctype = Friend, creator_id = ''alice'', stake_amount = 1000,
    duration_minutes = Some 25, max_players = 2, status = Completed,
    winner_id = Some ''alice''\<rparr>"
  have h1: "challenges S ''DUEL01'' = Some ch"
    unfolding S_def ch_def by code_simp
  have h2: "status ch \<noteq> Pending \<or> int (length (players_of S ''DUEL01'')) \<ge> max_players ch"
    by (simp add: ch_def)
  from join_rejected [OF h1 h2, of "Some ''alice''" "''alice''"]
  have "isl (join S (Some ''alice'') ''alice'' ''DUEL01'')"
    and "handle S (Join (Some ''alice'') ''alice'' ''DUEL01'') = S"
    by auto
  moreover have "status_of S ''DUEL01'' = Some Completed"
    using h1 by (simp add: status_of_def ch_def)
  ultimately show ?thesis
    unfolding S_def by (simp add: run_snoc)
qed

theorem index_join_member_witness:
  "map user_id (players_of (index_run empty_db index_royale) ''ROYAL1'') = [''u1'', ''u2'']
   \<and> map user_id (challenge_players
         (index_run empty_db (index_royale @ [Join None ''u1'' ''ROYAL1''])))
       = map user_id (challenge_players (index_run empty_db index_royale))"
proof -
  define T where "T = index_run empty_db index_royale"
  define ch where "ch = \<lparr>ctype = Royale, creator_id = ''u1'', stake_amount = 1000,
    duration_minutes = None, max_players = 5, status = Active, winner_id = None\<rparr>"
  define p where "p = \<lparr>challenge_id = ''ROYAL1'', user_id = ''u1'', paid = True,
    ready = True, failed = False, completed = False\<rparr>"
  have h1: "challenges T ''ROYAL1'' = Some ch"
    unfolding T_def ch_def by code_simp
  have h2: "find (\<lambda>p. user_id p = ''u1'') (players_of T ''ROYAL1'') = Some p"
    unfolding T_def p_def by code_simp
  have ps: "map user_id (players_of T ''ROYAL1'') = [''u1'', ''u2'']"
    unfolding T_def by code_simp
  from index_join_member [OF h1 h2]
  obtain s' where "index_join T ''u1'' ''ROYAL1'' = Inr s'"
    and "map user_id (challenge_players s') = map user_id (challenge_players T)"
    by blast
  then have "map user_id (challenge_players (index_handle T (Join None ''u1'' ''ROYAL1'')))
      = map user_id (challenge_players T)"
    by (simp add: keep_def)
  then show ?thesis
    using ps unfolding T_def by (simp add: index_run_def)
qed

end
